theory Spec2Isabelle
  imports Complex_Main "HOL-Library.Sublist" "HOL-Library.Code_Target_Nat"
begin

section \<open>The values of the program\<close>

subsection \<open>Strings\<close>

text \<open>
  A JavaScript string is a sequence of UTF-16 code units. A code unit is a natural number
  here, so that the Chinese text of the prompts and the non-ASCII white space that
  \<^verbatim>\<open>trim\<close> removes are the values the engine sees. \<open>str\<close> reads an ASCII literal.
\<close>

type_synonym jstring = "nat list"

definition str :: "string \<Rightarrow> jstring" where
  "str s = map of_char s"

text \<open>
  White space and line terminators of ECMAScript: what \<^verbatim>\<open>String.prototype.trim\<close> strips and
  what \<^verbatim>\<open>\s\<close> matches in a regular expression.
\<close>

definition is_ws :: "nat \<Rightarrow> bool" where
  "is_ws c \<longleftrightarrow>
     c = 9 \<or> c = 10 \<or> c = 11 \<or> c = 12 \<or> c = 13 \<or> c = 32 \<or> c = 160 \<or> c = 5760 \<or>
     (8192 \<le> c \<and> c \<le> 8202) \<or> c = 8232 \<or> c = 8233 \<or> c = 8239 \<or> c = 8287 \<or>
     c = 12288 \<or> c = 65279"

definition trim :: "jstring \<Rightarrow> jstring" where
  "trim s = rev (dropWhile is_ws (rev (dropWhile is_ws s)))"

text \<open>
  \<^verbatim>\<open>toLowerCase\<close> on the ASCII letters. The case mappings of other code units are not
  modelled: no code unit outside ASCII is mapped to a letter of a provider name (the
  Kelvin sign maps to \<^verbatim>\<open>k\<close>, which no provider name has), so \<open>normalizeProvider\<close> below
  gives the engine's answer on every string.
\<close>

definition lower_cu :: "nat \<Rightarrow> nat" where
  "lower_cu c = (if 65 \<le> c \<and> c \<le> 90 then c + 32 else c)"

definition toLowerCase :: "jstring \<Rightarrow> jstring" where
  "toLowerCase s = map lower_cu s"

definition startsWith :: "jstring \<Rightarrow> jstring \<Rightarrow> bool" where
  "startsWith s p \<longleftrightarrow> take (length p) s = p"

text \<open>\<^verbatim>\<open>s.indexOf(c)\<close> and \<^verbatim>\<open>s.lastIndexOf(c)\<close> for a one-unit needle; \<open>None\<close> is \<^verbatim>\<open>-1\<close>.\<close>

fun indexOf :: "jstring \<Rightarrow> nat \<Rightarrow> nat option" where
  "indexOf [] c = None"
| "indexOf (x # xs) c = (if x = c then Some 0 else map_option Suc (indexOf xs c))"

definition lastIndexOf :: "jstring \<Rightarrow> nat \<Rightarrow> nat option" where
  "lastIndexOf s c = map_option (\<lambda>i. length s - 1 - i) (indexOf (rev s) c)"

text \<open>\<^verbatim>\<open>s.slice(a, b)\<close> for \<open>0 \<le> a\<close>, \<open>0 \<le> b\<close>.\<close>

definition slice :: "jstring \<Rightarrow> nat \<Rightarrow> nat \<Rightarrow> jstring" where
  "slice s a b = drop a (take b s)"

text \<open>\<^verbatim>\<open>s.includes(p)\<close>.\<close>

definition includes_str :: "jstring \<Rightarrow> jstring \<Rightarrow> bool" where
  "includes_str s p \<longleftrightarrow> sublist p s"

subsection \<open>Numbers\<close>

text \<open>
  A number is a finite value, an infinity or NaN. Finite doubles are embedded in the
  rationals: the code compares, clamps and prints numbers and never does arithmetic on
  them, so no rounding takes place in it. A literal is read exactly; the rounding of a
  literal to the nearest double is modelled only where it leaves the finite non-zero
  range (overflow to an infinity, underflow to zero). The negative zero is not kept apart
  from zero.
\<close>

datatype jsnum = Fin rat | PInf | NInf | NaN

fun isFinite :: "jsnum \<Rightarrow> bool" where
  "isFinite (Fin q) = True"
| "isFinite _ = False"

text \<open>\<open>num_le a b\<close> is \<^verbatim>\<open>a <= b\<close>: false when either side is NaN.\<close>

fun num_le :: "jsnum \<Rightarrow> jsnum \<Rightarrow> bool" where
  "num_le NaN _ = False"
| "num_le _ NaN = False"
| "num_le NInf _ = True"
| "num_le _ PInf = True"
| "num_le (Fin a) (Fin b) = (a \<le> b)"
| "num_le _ _ = False"

text \<open>\<^verbatim>\<open>Math.min\<close> and \<^verbatim>\<open>Math.max\<close> of two numbers: NaN if either is NaN.\<close>

definition Math_min :: "jsnum \<Rightarrow> jsnum \<Rightarrow> jsnum" where
  "Math_min a b = (if a = NaN \<or> b = NaN then NaN else if num_le a b then a else b)"

definition Math_max :: "jsnum \<Rightarrow> jsnum \<Rightarrow> jsnum" where
  "Math_max a b = (if a = NaN \<or> b = NaN then NaN else if num_le a b then b else a)"

subsection \<open>Values and errors\<close>

text \<open>
  The values the code handles are those of \<^verbatim>\<open>JSON.parse\<close>, and \<^verbatim>\<open>undefined\<close>. An object
  is the list of its own properties in insertion order, with distinct keys. An array has
  its elements and, second, the named properties the code assigns to it
  (\<^verbatim>\<open>JSON.parse\<close> gives none).
\<close>

datatype jsval =
    JUndefined
  | JNull
  | JBool bool
  | JNum jsnum
  | JStr jstring
  | JArr "jsval list" "(jstring \<times> jsval) list"
  | JObj "(jstring \<times> jsval) list"

text \<open>
  What the code throws: the engine's \<^verbatim>\<open>TypeError\<close> and \<^verbatim>\<open>SyntaxError\<close>, and
  \<^verbatim>\<open>new Error(message)\<close>.
\<close>

datatype error = TypeError | SyntaxError | Error jstring

definition bind :: "error + 'a \<Rightarrow> ('a \<Rightarrow> error + 'b) \<Rightarrow> error + 'b" where
  "bind m f = (case m of Inl e \<Rightarrow> Inl e | Inr x \<Rightarrow> f x)"

fun upd :: "jstring \<Rightarrow> jsval \<Rightarrow> (jstring \<times> jsval) list \<Rightarrow> (jstring \<times> jsval) list" where
  "upd k x [] = [(k, x)]"
| "upd k x (p # ps) = (if fst p = k then (k, x) # ps else p # upd k x ps)"

definition own :: "(jstring \<times> jsval) list \<Rightarrow> jstring \<Rightarrow> jsval" where
  "own ps k = (case map_of ps k of None \<Rightarrow> JUndefined | Some v \<Rightarrow> v)"

text \<open>
  \<open>get v k\<close> is the read \<^verbatim>\<open>v.k\<close> of a named property. The keys the code reads are none of
  the names that objects, arrays and strings inherit (\<^verbatim>\<open>length\<close>, \<^verbatim>\<open>toString\<close>, ...) and no
  array index, so the read is the own property or \<^verbatim>\<open>undefined\<close>; on \<^verbatim>\<open>undefined\<close> and
  \<^verbatim>\<open>null\<close> it throws.
\<close>

fun get :: "jsval \<Rightarrow> jstring \<Rightarrow> error + jsval" where
  "get JUndefined k = Inl TypeError"
| "get JNull k = Inl TypeError"
| "get (JObj ps) k = Inr (own ps k)"
| "get (JArr xs ps) k = Inr (own ps k)"
| "get _ k = Inr JUndefined"

text \<open>\<open>opt_get v k\<close> is the optional chain \<^verbatim>\<open>v?.k\<close>.\<close>

fun opt_get :: "jsval \<Rightarrow> jstring \<Rightarrow> jsval" where
  "opt_get (JObj ps) k = own ps k"
| "opt_get (JArr xs ps) k = own ps k"
| "opt_get _ k = JUndefined"

text \<open>
  \<open>put strict v k x\<close> is the assignment \<^verbatim>\<open>v.k = x\<close> and returns the updated \<open>v\<close>. On a
  primitive value the assignment is dropped in sloppy mode and throws in strict mode.
\<close>

fun put :: "bool \<Rightarrow> jsval \<Rightarrow> jstring \<Rightarrow> jsval \<Rightarrow> error + jsval" where
  "put strict JUndefined k x = Inl TypeError"
| "put strict JNull k x = Inl TypeError"
| "put strict (JObj ps) k x = Inr (JObj (upd k x ps))"
| "put strict (JArr xs ps) k x = Inr (JArr xs (upd k x ps))"
| "put strict v k x = (if strict then Inl TypeError else Inr v)"

fun typeof :: "jsval \<Rightarrow> jstring" where
  "typeof JUndefined = str ''undefined''"
| "typeof JNull = str ''object''"
| "typeof (JBool b) = str ''boolean''"
| "typeof (JNum n) = str ''number''"
| "typeof (JStr s) = str ''string''"
| "typeof (JArr xs ps) = str ''object''"
| "typeof (JObj ps) = str ''object''"

fun isArray :: "jsval \<Rightarrow> bool" where
  "isArray (JArr xs ps) = True"
| "isArray _ = False"

text \<open>\<open>truthy v\<close> is \<^verbatim>\<open>Boolean(v)\<close>, the test of \<^verbatim>\<open>if (v)\<close>, \<^verbatim>\<open>!v\<close> and \<^verbatim>\<open>v || w\<close>.\<close>

fun truthy :: "jsval \<Rightarrow> bool" where
  "truthy JUndefined = False"
| "truthy JNull = False"
| "truthy (JBool b) = b"
| "truthy (JNum n) = (n \<noteq> Fin 0 \<and> n \<noteq> NaN)"
| "truthy (JStr s) = (s \<noteq> [])"
| "truthy (JArr xs ps) = True"
| "truthy (JObj ps) = True"

definition or_else :: "jsval \<Rightarrow> jsval \<Rightarrow> jsval" where
  "or_else v w = (if truthy v then v else w)"

subsection \<open>Conversions of the engine\<close>

definition is_digit :: "nat \<Rightarrow> bool" where
  "is_digit c \<longleftrightarrow> 48 \<le> c \<and> c \<le> 57"

text \<open>The decimal digits of a natural number, most significant first.\<close>

function digits :: "nat \<Rightarrow> jstring" where
  "digits n = (if n < 10 then [48 + n] else digits (n div 10) @ [48 + n mod 10])"
  by pat_completeness auto
termination
  by (relation "measure id") auto

declare digits.simps [simp del]

text \<open>
  \<^verbatim>\<open>Number::toString\<close> in radix 10. A positive finite \<open>q\<close> is written from its shortest
  digit string \<open>sd\<close> (\<open>k\<close> digits, no trailing zero) and the position \<open>n\<close> of its decimal
  point, \<open>q = 0.sd * 10 ^ n\<close>, in the four layouts of the language definition. A double has
  a finite decimal expansion, of \<open>frac_len b\<close> places for the denominator \<open>b\<close> (a power
  of two below \<open>10 ^ l\<close> is below \<open>2 ^ (4 * l)\<close>); a rational without one is no value of
  the program and is printed as \<^verbatim>\<open>NaN\<close>.
\<close>

definition frac_len :: "nat \<Rightarrow> nat option" where
  "frac_len b = find (\<lambda>f. b dvd 10 ^ f) [0..<Suc (4 * length (digits b))]"

definition pos_to_string :: "rat \<Rightarrow> jstring" where
  "pos_to_string q =
     (let (a, b) = quotient_of q in
      case frac_len (nat b) of
        None \<Rightarrow> str ''NaN''
      | Some f \<Rightarrow>
         (let ds = digits (nat (a * 10 ^ f div b));
              z = length (takeWhile (\<lambda>c. c = 48) (rev ds));
              sd = take (length ds - z) ds;
              k = int (length sd);
              n = int (length ds) - int f;
              ex = (if n - 1 < 0 then [45] else [43]) @ digits (nat \<bar>n - 1\<bar>)
          in if k \<le> n \<and> n \<le> 21 then sd @ replicate (nat (n - k)) 48
             else if 0 < n \<and> n \<le> 21 then take (nat n) sd @ [46] @ drop (nat n) sd
             else if -6 < n \<and> n \<le> 0 then [48, 46] @ replicate (nat (- n)) 48 @ sd
             else if k = 1 then sd @ [101] @ ex
             else take 1 sd @ [46] @ drop 1 sd @ [101] @ ex))"

fun NumberToString :: "jsnum \<Rightarrow> jstring" where
  "NumberToString NaN = str ''NaN''"
| "NumberToString PInf = str ''Infinity''"
| "NumberToString NInf = str ''-Infinity''"
| "NumberToString (Fin q) =
     (if q = 0 then [48] else if q < 0 then 45 # pos_to_string (- q) else pos_to_string q)"

text \<open>
  \<open>to_string v\<close> is \<^verbatim>\<open>String(v)\<close>, the conversion of a template literal and of
  \<^verbatim>\<open>Array.prototype.join\<close>. An object of \<^verbatim>\<open>JSON.parse\<close> has no callable property of its
  own: with an own \<^verbatim>\<open>toString\<close> the conversion finds no method that returns a primitive
  value and throws, without one it is that of \<^verbatim>\<open>Object.prototype\<close>. An array is joined
  with commas. \<open>join_vals sep xs\<close> is \<^verbatim>\<open>xs.join(sep)\<close>, where \<^verbatim>\<open>undefined\<close> and \<^verbatim>\<open>null\<close>
  print as the empty string.
\<close>

fun to_string :: "jsval \<Rightarrow> error + jstring"
  and join_vals :: "jstring \<Rightarrow> jsval list \<Rightarrow> error + jstring" where
  "to_string JUndefined = Inr (str ''undefined'')"
| "to_string JNull = Inr (str ''null'')"
| "to_string (JBool b) = Inr (if b then str ''true'' else str ''false'')"
| "to_string (JNum n) = Inr (NumberToString n)"
| "to_string (JStr s) = Inr s"
| "to_string (JArr xs ps) =
     (if map_of ps (str ''toString'') \<noteq> None then Inl TypeError
      else if map_of ps (str ''join'') \<noteq> None then Inr (str ''[object Array]'')
      else join_vals [44] xs)"
| "to_string (JObj ps) =
     (if map_of ps (str ''toString'') \<noteq> None then Inl TypeError
      else Inr (str ''[object Object]''))"
| "join_vals sep [] = Inr []"
| "join_vals sep (x # xs) =
     (case (if x = JUndefined \<or> x = JNull then Inr [] else to_string x) of
        Inl e \<Rightarrow> Inl e
      | Inr a \<Rightarrow>
         (if xs = [] then Inr a
          else case join_vals sep xs of Inl e \<Rightarrow> Inl e | Inr b \<Rightarrow> Inr (a @ sep @ b)))"

text \<open>
  \<^verbatim>\<open>StringToNumber\<close>: the trimmed text is empty (zero), a decimal literal with an optional
  sign, \<^verbatim>\<open>Infinity\<close> with an optional sign, or an unsigned literal in radix 16, 8 or 2;
  anything else is NaN.
\<close>

definition nat_of_digits :: "jstring \<Rightarrow> nat" where
  "nat_of_digits ds = foldl (\<lambda>a c. 10 * a + (c - 48)) 0 ds"

definition round_range :: "rat \<Rightarrow> jsnum" where
  "round_range q =
     (if 2 ^ 1024 - 2 ^ 970 \<le> \<bar>q\<bar> then (if 0 < q then PInf else NInf)
      else if \<bar>q\<bar> \<le> 1 / 2 ^ 1075 then Fin 0
      else Fin q)"

definition scale10 :: "rat \<Rightarrow> int \<Rightarrow> rat" where
  "scale10 m e = (if 0 \<le> e then m * 10 ^ nat e else m / 10 ^ nat (- e))"

text \<open>The exponent part: empty, or \<^verbatim>\<open>e\<close> or \<^verbatim>\<open>E\<close>, an optional sign and digits.\<close>

definition exponent_part :: "jstring \<Rightarrow> int option" where
  "exponent_part r =
     (case r of
        [] \<Rightarrow> Some 0
      | c # r1 \<Rightarrow>
         (if c = 101 \<or> c = 69 then
            (let neg = (r1 \<noteq> [] \<and> hd r1 = 45);
                 r2 = (if r1 \<noteq> [] \<and> (hd r1 = 45 \<or> hd r1 = 43) then tl r1 else r1)
             in if r2 \<noteq> [] \<and> list_all is_digit r2
                then Some (if neg then - int (nat_of_digits r2) else int (nat_of_digits r2))
                else None)
          else None))"

definition unsigned_decimal :: "jstring \<Rightarrow> rat option" where
  "unsigned_decimal t =
     (let ip = takeWhile is_digit t;
          r1 = dropWhile is_digit t;
          dot = (r1 \<noteq> [] \<and> hd r1 = 46);
          fp = (if dot then takeWhile is_digit (tl r1) else []);
          r2 = (if dot then dropWhile is_digit (tl r1) else r1)
      in if ip = [] \<and> fp = [] then None
         else case exponent_part r2 of
                None \<Rightarrow> None
              | Some e \<Rightarrow> Some (scale10 (of_nat (nat_of_digits (ip @ fp))) (e - int (length fp))))"

definition signed_decimal :: "jstring \<Rightarrow> jsnum" where
  "signed_decimal t =
     (let neg = (t \<noteq> [] \<and> hd t = 45);
          u = (if t \<noteq> [] \<and> (hd t = 45 \<or> hd t = 43) then tl t else t)
      in if u = str ''Infinity'' then (if neg then NInf else PInf)
         else case unsigned_decimal u of
                None \<Rightarrow> NaN
              | Some q \<Rightarrow> round_range (if neg then - q else q))"

definition radix_digit :: "nat \<Rightarrow> nat option" where
  "radix_digit c =
     (if 48 \<le> c \<and> c \<le> 57 then Some (c - 48)
      else if 97 \<le> c \<and> c \<le> 102 then Some (c - 87)
      else if 65 \<le> c \<and> c \<le> 70 then Some (c - 55)
      else None)"

definition radix_literal :: "nat \<Rightarrow> jstring \<Rightarrow> jsnum" where
  "radix_literal b ds =
     (if ds \<noteq> [] \<and> list_all (\<lambda>c. case radix_digit c of None \<Rightarrow> False | Some d \<Rightarrow> d < b) ds
      then round_range (of_nat (foldl (\<lambda>a c. b * a + the (radix_digit c)) 0 ds))
      else NaN)"

definition StringToNumber :: "jstring \<Rightarrow> jsnum" where
  "StringToNumber s =
     (let t = trim s in
      if t = [] then Fin 0
      else if take 2 t = str ''0x'' \<or> take 2 t = str ''0X'' then radix_literal 16 (drop 2 t)
      else if take 2 t = str ''0o'' \<or> take 2 t = str ''0O'' then radix_literal 8 (drop 2 t)
      else if take 2 t = str ''0b'' \<or> take 2 t = str ''0B'' then radix_literal 2 (drop 2 t)
      else signed_decimal t)"

text \<open>
  \<open>to_number v\<close> is \<^verbatim>\<open>Number(v)\<close>. An object or array is first converted to a primitive
  value: its \<^verbatim>\<open>valueOf\<close> returns the object itself, so the result is that of its string.
\<close>

fun to_number :: "jsval \<Rightarrow> error + jsnum" where
  "to_number JUndefined = Inr NaN"
| "to_number JNull = Inr (Fin 0)"
| "to_number (JBool b) = Inr (Fin (if b then 1 else 0))"
| "to_number (JNum n) = Inr n"
| "to_number (JStr s) = Inr (StringToNumber s)"
| "to_number v = bind (to_string v) (\<lambda>s. Inr (StringToNumber s))"

section \<open>Helpers of \<^verbatim>\<open>server.js\<close> and \<^verbatim>\<open>grader.js\<close>\<close>

text \<open>
  \<^verbatim>\<open>clampNumber(n, min, max, fallback)\<close>, the same in both files.
\<close>

definition clampNumber :: "jsval \<Rightarrow> jsnum \<Rightarrow> jsnum \<Rightarrow> jsnum \<Rightarrow> error + jsnum" where
  "clampNumber n lo hi fallback =
     bind (to_number n) (\<lambda>x.
       if \<not> isFinite x then Inr fallback
       else Inr (Math_min hi (Math_max lo x)))"

text \<open>\<^verbatim>\<open>normalizeProvider(value)\<close> of \<^verbatim>\<open>server.js\<close>.\<close>

definition normalizeProvider :: "jsval \<Rightarrow> error + jstring" where
  "normalizeProvider v0 =
     bind (to_string (or_else v0 (JStr []))) (\<lambda>s.
       let v = trim (toLowerCase s) in
       if v = str ''anthropic'' then Inr (str ''claude'')
       else if v = str ''gemini'' then Inr (str ''google'')
       else if v = str ''google'' then Inr (str ''google'')
       else if v = str ''openai'' then Inr (str ''openai'')
       else if v = str ''claude'' then Inr (str ''claude'')
       else Inr (str ''openai''))"

section \<open>\<^verbatim>\<open>JSON.parse\<close>\<close>

text \<open>
  The grammar of JSON, read by recursive descent. Every step of the descent uses one unit
  of fuel and every second step at least consumes a code unit, so \<open>JSON_parse\<close> starts
  with twice the length of the text. A member with a key already seen replaces the value
  and keeps the key's place, as the engine's property definition does.
\<close>

definition json_ws :: "nat \<Rightarrow> bool" where
  "json_ws c \<longleftrightarrow> c = 32 \<or> c = 9 \<or> c = 10 \<or> c = 13"

definition skip_ws :: "jstring \<Rightarrow> jstring" where
  "skip_ws s = dropWhile json_ws s"

definition unescape :: "nat \<Rightarrow> nat option" where
  "unescape e =
     (if e = 34 then Some 34 else if e = 92 then Some 92 else if e = 47 then Some 47
      else if e = 98 then Some 8 else if e = 102 then Some 12 else if e = 110 then Some 10
      else if e = 114 then Some 13 else if e = 116 then Some 9 else None)"

definition hex4 :: "jstring \<Rightarrow> nat option" where
  "hex4 hs =
     (if length hs = 4 \<and> list_all (\<lambda>c. radix_digit c \<noteq> None) hs
      then Some (foldl (\<lambda>a c. 16 * a + the (radix_digit c)) 0 hs)
      else None)"

text \<open>
  \<open>string_body acc s\<close> reads a string after its opening quote: the text (\<open>acc\<close> holds it
  reversed) and what follows the closing quote.
\<close>

fun string_body :: "jstring \<Rightarrow> jstring \<Rightarrow> (jstring \<times> jstring) option" where
  "string_body acc [] = None"
| "string_body acc (c # cs) =
     (if c = 34 then Some (rev acc, cs)
      else if c = 92 then
        (case cs of
           [] \<Rightarrow> None
         | e # es \<Rightarrow>
            (if e = 117 then
               (case hex4 (take 4 es) of
                  None \<Rightarrow> None
                | Some u \<Rightarrow> string_body (u # acc) (drop 4 es))
             else
               (case unescape e of
                  None \<Rightarrow> None
                | Some u \<Rightarrow> string_body (u # acc) es)))
      else if c < 32 then None
      else string_body (c # acc) cs)"

text \<open>
  \<open>scan_number s\<close> splits off the longest number token at the head of \<open>s\<close>: an optional
  minus, \<^verbatim>\<open>0\<close> or a digit string without leading zero, an optional fraction, an optional
  exponent. Each part is the longest one that is complete; a point or an exponent mark
  that no digit follows is left in the rest, where no JSON text can continue with it.
\<close>

definition number_sign :: "jstring \<Rightarrow> jstring" where
  "number_sign s = (if s \<noteq> [] \<and> hd s = 45 then [45] else [])"

definition number_int :: "jstring \<Rightarrow> jstring" where
  "number_int s = (if s \<noteq> [] \<and> hd s = 48 then [48] else takeWhile is_digit s)"

definition number_frac :: "jstring \<Rightarrow> jstring" where
  "number_frac s =
     (if s \<noteq> [] \<and> hd s = 46 \<and> takeWhile is_digit (tl s) \<noteq> []
      then 46 # takeWhile is_digit (tl s) else [])"

definition exp_mark :: "jstring \<Rightarrow> jstring" where
  "exp_mark s =
     (if s \<noteq> [] \<and> (hd s = 101 \<or> hd s = 69)
      then (if tl s \<noteq> [] \<and> (hd (tl s) = 43 \<or> hd (tl s) = 45) then take 2 s else take 1 s)
      else [])"

definition number_exp :: "jstring \<Rightarrow> jstring" where
  "number_exp s =
     (if exp_mark s \<noteq> [] \<and> takeWhile is_digit (drop (length (exp_mark s)) s) \<noteq> []
      then exp_mark s @ takeWhile is_digit (drop (length (exp_mark s)) s) else [])"

definition scan_number :: "jstring \<Rightarrow> (jstring \<times> jstring) option" where
  "scan_number s =
     (let sg = number_sign s;
          s1 = drop (length sg) s;
          ip = number_int s1;
          s2 = drop (length ip) s1;
          fp = number_frac s2;
          s3 = drop (length fp) s2;
          ep = number_exp s3
      in if ip = [] then None
         else Some (sg @ ip @ fp @ ep, drop (length ep) s3))"

datatype pres = OutOfFuel | Bad | Ok jsval jstring

fun jvalue :: "nat \<Rightarrow> jstring \<Rightarrow> pres"
  and jelems :: "nat \<Rightarrow> jsval list \<Rightarrow> jstring \<Rightarrow> pres"
  and jmembers :: "nat \<Rightarrow> (jstring \<times> jsval) list \<Rightarrow> jstring \<Rightarrow> pres" where
  "jvalue 0 s = OutOfFuel"
| "jvalue (Suc n) s =
     (case skip_ws s of
        [] \<Rightarrow> Bad
      | c # cs \<Rightarrow>
         (if c = 123 then
            (case skip_ws cs of
               [] \<Rightarrow> Bad
             | d # ds \<Rightarrow> if d = 125 then Ok (JObj []) ds else jmembers n [] (d # ds))
          else if c = 91 then
            (case skip_ws cs of
               [] \<Rightarrow> Bad
             | d # ds \<Rightarrow> if d = 93 then Ok (JArr [] []) ds else jelems n [] (d # ds))
          else if c = 34 then
            (case string_body [] cs of
               None \<Rightarrow> Bad
             | Some (t, r) \<Rightarrow> Ok (JStr t) r)
          else if take 4 (c # cs) = str ''true'' then Ok (JBool True) (drop 4 (c # cs))
          else if take 5 (c # cs) = str ''false'' then Ok (JBool False) (drop 5 (c # cs))
          else if take 4 (c # cs) = str ''null'' then Ok JNull (drop 4 (c # cs))
          else
            (case scan_number (c # cs) of
               None \<Rightarrow> Bad
             | Some (tok, r) \<Rightarrow> Ok (JNum (signed_decimal tok)) r)))"
| "jelems 0 acc s = OutOfFuel"
| "jelems (Suc n) acc s =
     (case jvalue n s of
        OutOfFuel \<Rightarrow> OutOfFuel
      | Bad \<Rightarrow> Bad
      | Ok v r \<Rightarrow>
         (case skip_ws r of
            [] \<Rightarrow> Bad
          | c # cs \<Rightarrow>
             if c = 44 then jelems n (acc @ [v]) cs
             else if c = 93 then Ok (JArr (acc @ [v]) []) cs
             else Bad))"
| "jmembers 0 acc s = OutOfFuel"
| "jmembers (Suc n) acc s =
     (case skip_ws s of
        [] \<Rightarrow> Bad
      | c # cs \<Rightarrow>
         if c \<noteq> 34 then Bad
         else
           (case string_body [] cs of
              None \<Rightarrow> Bad
            | Some (k, r) \<Rightarrow>
               (case skip_ws r of
                  [] \<Rightarrow> Bad
                | d # ds \<Rightarrow>
                   if d \<noteq> 58 then Bad
                   else
                     (case jvalue n ds of
                        OutOfFuel \<Rightarrow> OutOfFuel
                      | Bad \<Rightarrow> Bad
                      | Ok v r2 \<Rightarrow>
                         (case skip_ws r2 of
                            [] \<Rightarrow> Bad
                          | e # es \<Rightarrow>
                             if e = 44 then jmembers n (upd k v acc) es
                             else if e = 125 then Ok (JObj (upd k v acc)) es
                             else Bad)))))"

definition JSON_parse :: "jstring \<Rightarrow> error + jsval" where
  "JSON_parse s =
     (case jvalue (2 * length s + 1) s of
        Ok v r \<Rightarrow> if skip_ws r = [] then Inr v else Inl SyntaxError
      | _ \<Rightarrow> Inl SyntaxError)"

section \<open>The resilient JSON extractor\<close>

text \<open>
  \<open>split_fence s\<close> cuts \<open>s\<close> at its first run of three backticks: the text before the
  run and the text after it.
\<close>

fun split_fence :: "jstring \<Rightarrow> (jstring \<times> jstring) option" where
  "split_fence [] = None"
| "split_fence (c # cs) =
     (if take 3 (c # cs) = [96, 96, 96] then Some ([], drop 3 (c # cs))
      else map_option (\<lambda>(a, b). (c # a, b)) (split_fence cs))"

text \<open>
  \<open>fence_match t\<close> is the first capture group of
  \<^verbatim>\<open>t.match(/```(?:json)?\s*([\s\S]*?)\s*```/i)\<close>, or \<open>None\<close> when the expression does not
  match. The match starts at the first fence of \<open>t\<close>; the optional \<^verbatim>\<open>json\<close> (in either
  case) and the white space after it are taken greedily; the lazy group then ends as
  early as white space and a fence can follow it, which is before the white space that
  precedes the next fence. If no fence follows, backtracking finds no match either: the
  units given back are letters and white space, and a later start needs a fence after it
  too.
\<close>

definition fence_match :: "jstring \<Rightarrow> jstring option" where
  "fence_match t =
     (case split_fence t of
        None \<Rightarrow> None
      | Some (before, r0) \<Rightarrow>
         (let r1 = (if toLowerCase (take 4 r0) = str ''json'' then drop 4 r0 else r0);
              r2 = dropWhile is_ws r1
          in case split_fence r2 of
               None \<Rightarrow> None
             | Some (inner, after) \<Rightarrow> Some (rev (dropWhile is_ws (rev inner)))))"

text \<open>\<open>try_parse s\<close> is \<^verbatim>\<open>try { return JSON.parse(s) } catch { }\<close>: \<open>None\<close> is the catch.\<close>

definition try_parse :: "jstring \<Rightarrow> jsval option" where
  "try_parse s = (case JSON_parse s of Inl e \<Rightarrow> None | Inr v \<Rightarrow> Some v)"

text \<open>The second strategy of \<^verbatim>\<open>safeJsonParse\<close>: the inside of a fenced block.\<close>

definition parse_fenced :: "jstring \<Rightarrow> jsval option" where
  "parse_fenced trimmed =
     (case fence_match trimmed of
        None \<Rightarrow> None
      | Some inner \<Rightarrow> if inner \<noteq> [] then try_parse (trim inner) else None)"

text \<open>The third strategy: from the first opening brace to the last closing brace.\<close>

definition parse_braces :: "jstring \<Rightarrow> jsval option" where
  "parse_braces trimmed =
     (case (indexOf trimmed 123, lastIndexOf trimmed 125) of
        (Some i, Some j) \<Rightarrow>
          if j > i then try_parse (slice trimmed i (j + 1)) else None
      | _ \<Rightarrow> None)"

text \<open>
  \<^verbatim>\<open>safeJsonParse(text)\<close>, the same in \<^verbatim>\<open>server.js\<close> and \<^verbatim>\<open>grader.js\<close>. The result
  \<^verbatim>\<open>null\<close> is \<open>JNull\<close>, also when the text is the JSON text \<^verbatim>\<open>null\<close>.
\<close>

definition safeJsonParse :: "jsval \<Rightarrow> jsval" where
  "safeJsonParse text =
     (case text of
        JStr s \<Rightarrow>
          (let trimmed = trim s in
           if trimmed = [] then JNull
           else case try_parse trimmed of
                  Some v \<Rightarrow> v
                | None \<Rightarrow>
                   (case parse_fenced trimmed of
                      Some v \<Rightarrow> v
                    | None \<Rightarrow>
                       (case parse_braces trimmed of
                          Some v \<Rightarrow> v
                        | None \<Rightarrow> JNull)))
      | _ \<Rightarrow> JNull)"

section \<open>The data of a grading attempt\<close>

text \<open>
  A \<open>question\<close> of the question bank: identifier, section label, point value, prompt text,
  optional topic labels, optional heading key (\<open>q_section\<close> and \<open>q_text\<close> are the fields
  \<^verbatim>\<open>section\<close> and \<^verbatim>\<open>text\<close>). The record holds the well-formed questions of the data
  model; a bank whose labels are not strings is outside it.
\<close>

record question =
  q_id :: jstring
  q_section :: jstring
  points :: jsnum
  q_text :: jstring
  booklistTopics :: "jstring list option"
  noteHeading :: "jstring option"

record chat_message =
  role :: jstring
  content :: jstring

text \<open>\<^verbatim>\<open>process.env\<close>: the variables the server reads, each absent or a string.\<close>

record env =
  OPENAI_API_KEY :: "jstring option"
  GOOGLE_API_KEY :: "jstring option"
  GEMINI_API_KEY :: "jstring option"
  ANTHROPIC_API_KEY :: "jstring option"
  OPENAI_MODEL :: "jstring option"
  GOOGLE_MODEL :: "jstring option"
  CLAUDE_MODEL :: "jstring option"
  ANTHROPIC_MODEL :: "jstring option"

text \<open>
  The network is an input of the model. A \<open>request\<close> is what an adapter passes to
  \<^verbatim>\<open>fetch\<close>, named by its endpoint: the key, the model and the messages (for
  Anthropic also whether the direct-browser-access header is sent). A \<open>response\<close> is what
  the adapter reads of the answer: \<^verbatim>\<open>res.ok\<close>, \<^verbatim>\<open>res.status\<close> and \<open>data\<close>, the value of
  \<^verbatim>\<open>await res.json().catch(() => ({}))\<close>. \<^verbatim>\<open>fetch\<close> itself may throw.
\<close>

datatype request =
    OpenAIRequest jstring jstring "chat_message list"
  | GoogleRequest jstring jstring jstring jstring
  | ClaudeRequest jstring jstring jstring jstring bool

record response =
  ok :: bool
  status :: nat
  data :: jsval

type_synonym fetch = "request \<Rightarrow> error + response"

text \<open>\<open>opt_idx v i\<close> is the optional chain \<^verbatim>\<open>v?.[i]\<close>.\<close>

fun opt_idx :: "jsval \<Rightarrow> nat \<Rightarrow> jsval" where
  "opt_idx (JArr xs ps) i = (if i < length xs then xs ! i else JUndefined)"
| "opt_idx (JObj ps) i = own ps (digits i)"
| "opt_idx (JStr s) i = (if i < length s then JStr [s ! i] else JUndefined)"
| "opt_idx _ i = JUndefined"


text \<open>
  \<^verbatim>\<open>encodeURIComponent\<close> throws a \<^verbatim>\<open>URIError\<close> on a string with a lone surrogate; the
  model keeps that and leaves the encoded text to the \<open>request\<close>.
\<close>

fun well_formed :: "jstring \<Rightarrow> bool" where
  "well_formed [] = True"
| "well_formed (c # cs) =
     (if 55296 \<le> c \<and> c \<le> 56319 then
        (case cs of
           [] \<Rightarrow> False
         | d # ds \<Rightarrow> 56320 \<le> d \<and> d \<le> 57343 \<and> well_formed ds)
      else if 56320 \<le> c \<and> c \<le> 57343 then False
      else well_formed cs)"

definition URIError :: error where
  "URIError = Error (str ''URI malformed'')"

text \<open>\<open>join_strs sep xs\<close> is \<^verbatim>\<open>xs.join(sep)\<close> on an array of strings.\<close>

fun join_strs :: "jstring \<Rightarrow> jstring list \<Rightarrow> jstring" where
  "join_strs sep [] = []"
| "join_strs sep [x] = x"
| "join_strs sep (x # y # ys) = x @ sep @ join_strs sep (y # ys)"

section \<open>The text of the prompts and of the fallback results\<close>

text \<open>
  The constants are given by their code units; each is preceded by its text, with the
  units outside ASCII written as \<^verbatim>\<open>\uXXXX\<close>.
\<close>

text \<open>
  The grading persona, first line of both system messages:
  \<^verbatim>\<open>\u4F60\u662F\u535A\u58EB\u73ED\u8CC7\u683C\u8003\u300E\u7814\u7A76\u6CD5\u300F\u95B1\<close>
  \<^verbatim>\<open>\u5377\u8001\u5E2B\uFF0C\u76EE\u6A19\u662F\u5E6B\u8003\u751F\u7528\u8003\u8A66\u53D6\<close>
  \<^verbatim>\<open>\u5411\u63D0\u5347\u5F97\u5206\u3002\<close>
\<close>

definition sys_persona :: jstring where
  "sys_persona =
     [20320, 26159, 21338, 22763, 29677, 36039, 26684, 32771, 12302, 30740, 31350, 27861,
      12303, 38321, 21367, 32769, 24107, 65292, 30446, 27161, 26159, 24171, 32771, 29983,
      29992, 32771, 35430, 21462, 21521, 25552, 21319, 24471, 20998, 12290]"

text \<open>
  The response language:
  \<^verbatim>\<open>\u8ACB\u4F7F\u7528\u7E41\u9AD4\u4E2D\u6587\u56DE\u8986\u3002\<close>
\<close>

definition sys_language :: jstring where
  "sys_language =
     [35531, 20351, 29992, 32321, 39636, 20013, 25991, 22238, 35206, 12290]"

text \<open>
  Only the official book list may be cited (\<^verbatim>\<open>server.js\<close> only):
  \<^verbatim>\<open>\u4F60\u53EA\u80FD\u5F15\u7528/\u5EFA\u8B70\u56DE\u982D\u95B1\u8B80\u300E\u5B98\<close>
  \<^verbatim>\<open>\u65B9\u66F8\u55AE\u5C0D\u7167\u300F\u4E2D\u51FA\u73FE\u7684\u53C3\u8003\u4F86\u6E90\<close>
  \<^verbatim>\<open>\uFF1B\u4E0D\u8981\u81EA\u884C\u675C\u64B0\u66F8\u76EE\u6216\u7AE0\u7BC0\u3002\<close>
\<close>

definition sys_booklist_only :: jstring where
  "sys_booklist_only =
     [20320, 21482, 33021, 24341, 29992, 47, 24314, 35696, 22238, 38957, 38321, 35712,
      12302, 23448, 26041, 26360, 21934, 23565, 29031, 12303, 20013, 20986, 29694, 30340,
      21443, 32771, 20358, 28304, 65307, 19981, 35201, 33258, 34892, 26460, 25776, 26360,
      30446, 25110, 31456, 31680, 12290]"

text \<open>
  The scoring criteria:
  \<^verbatim>\<open>\u8A55\u5206\u91CD\u9EDE\uFF1A\u6982\u5FF5\u6B63\u78BA\u3001\u5C0D\u9F4A\u914D\u5206\<close>
  \<^verbatim>\<open>\u3001\u7D50\u69CB\u6E05\u695A\u3001\u80FD\u8209\u4F8B\u6216\u60C5\u5883\u5316\u3002\<close>
\<close>

definition sys_criteria :: jstring where
  "sys_criteria =
     [35413, 20998, 37325, 40670, 65306, 27010, 24565, 27491, 30906, 12289, 23565, 40778,
      37197, 20998, 12289, 32080, 27083, 28165, 26970, 12289, 33021, 33289, 20363, 25110,
      24773, 22659, 21270, 12290]"

text \<open>
  The reply must be JSON:
  \<^verbatim>\<open>\u8F38\u51FA\u5FC5\u9808\u662F JSON\uFF08\u4E0D\u8981 Markdown\u3001\u4E0D\u8981\<close>
  \<^verbatim>\<open>\u591A\u9918\u6587\u5B57\uFF09\u3002\<close>
\<close>

definition sys_json_only :: jstring where
  "sys_json_only =
     [36664, 20986, 24517, 38920, 26159, 32, 74, 83, 79, 78, 65288, 19981, 35201, 32, 77,
      97, 114, 107, 100, 111, 119, 110, 12289, 19981, 35201, 22810, 39192, 25991, 23383,
      65289, 12290]"

text \<open>
  The question header, before the section:
  \<^verbatim>\<open>\u3010\u984C\u76EE\uFF5C\<close>
\<close>

definition hdr_open :: jstring where
  "hdr_open =
     [12304, 38988, 30446, 65372]"

text \<open>
  between the section and the point value:
  \<^verbatim>\<open>\uFF5C\<close>
\<close>

definition hdr_bar :: jstring where
  "hdr_bar =
     [65372]"

text \<open>
  and after the point value:
  \<^verbatim>\<open> \u5206\u3011\n\<close>
\<close>

definition hdr_close :: jstring where
  "hdr_close =
     [32, 20998, 12305, 10]"

text \<open>
  Before the topic list:
  \<^verbatim>\<open>\n\u3010\u984C\u76EE\u5C0D\u61C9\u66F8\u55AE\u4E3B\u984C\u3011\n- \<close>
\<close>

definition topics_intro :: jstring where
  "topics_intro =
     [10, 12304, 38988, 30446, 23565, 25033, 26360, 21934, 20027, 38988, 12305, 10, 45, 32]"

text \<open>
  The separator of the topic list:
  \<^verbatim>\<open>\n- \<close>
\<close>

definition topics_sep :: jstring where
  "topics_sep =
     [10, 45, 32]"

text \<open>
  Before the elapsed time:
  \<^verbatim>\<open>\n\u3010\u4F5C\u7B54\u6642\u9593\u3011\n\<close>
\<close>

definition elapsed_intro :: jstring where
  "elapsed_intro =
     [10, 12304, 20316, 31572, 26178, 38291, 12305, 10]"

text \<open>
  and after it:
  \<^verbatim>\<open> \u79D2\uFF08\u50C5\u4F9B\u53C3\u8003\uFF09\<close>
\<close>

definition elapsed_unit :: jstring where
  "elapsed_unit =
     [32, 31186, 65288, 20677, 20379, 21443, 32771, 65289]"

text \<open>
  Before the answer:
  \<^verbatim>\<open>\n\u3010\u8003\u751F\u7B54\u6848\u3011\n\<close>
\<close>

definition answer_intro :: jstring where
  "answer_intro =
     [10, 12304, 32771, 29983, 31572, 26696, 12305, 10]"

text \<open>
  Before the notes snippet (for calibration, not to be quoted):
  \<^verbatim>\<open>\n\u3010\u672C\u5C08\u6848\u91CD\u9EDE\u7B46\u8A18\uFF08\u6821\u6B63\u7528\uFF1B\<close>
  \<^verbatim>\<open>\u4E0D\u8981\u9010\u5B57\u5F15\u7528\uFF09\u3011\n\<close>
\<close>

definition notes_intro :: jstring where
  "notes_intro =
     [10, 12304, 26412, 23560, 26696, 37325, 40670, 31558, 35352, 65288, 26657, 27491,
      29992, 65307, 19981, 35201, 36880, 23383, 24341, 29992, 65289, 12305, 10]"

text \<open>
  Before the book list snippet (citable, not to be invented):
  \<^verbatim>\<open>\n\u3010\u5B98\u65B9\u66F8\u55AE\u5C0D\u7167\uFF08\u53EF\u5F15\u7528\uFF1B\u4E0D\<close>
  \<^verbatim>\<open>\u53EF\u675C\u64B0\uFF09\u3011\n\<close>
\<close>

definition booklist_intro :: jstring where
  "booklist_intro =
     [10, 12304, 23448, 26041, 26360, 21934, 23565, 29031, 65288, 21487, 24341, 29992,
      65307, 19981, 21487, 26460, 25776, 65289, 12305, 10]"

text \<open>
  Before the output contract:
  \<^verbatim>\<open>\n\u3010\u8F38\u51FA\u683C\u5F0F\uFF08\u5FC5\u9808\u7B26\u5408\uFF09\u3011\n\<close>
\<close>

definition contract_intro :: jstring where
  "contract_intro =
     [10, 12304, 36664, 20986, 26684, 24335, 65288, 24517, 38920, 31526, 21512, 65289,
      12305, 10]"

text \<open>
  The closing instruction:
  \<^verbatim>\<open>\n\u3010\u8981\u6C42\u3011score \u4E0D\u5F97\u8D85\u904E maxScore\uFF1B\u82E5\u7B54\<close>
  \<^verbatim>\<open>\u6848\u660E\u986F\u96E2\u984C/\u932F\u8AA4\uFF0C\u8ACB\u76F4\u63A5\u9EDE\u51FA\<close>
  \<^verbatim>\<open>\u4E26\u7D66\u6700\u77ED\u53EF\u88DC\u6551\u7248\u672C\u3002\<close>
\<close>

definition requirement :: jstring where
  "requirement =
     [10, 12304, 35201, 27714, 12305, 115, 99, 111, 114, 101, 32, 19981, 24471, 36229,
      36942, 32, 109, 97, 120, 83, 99, 111, 114, 101, 65307, 33509, 31572, 26696, 26126,
      39023, 38626, 38988, 47, 37679, 35492, 65292, 35531, 30452, 25509, 40670, 20986,
      20006, 32102, 26368, 30701, 21487, 35036, 25937, 29256, 26412, 12290]"

text \<open>
  \<^verbatim>\<open>JSON.stringify(outputContract, null, 2)\<close> in \<^verbatim>\<open>server.js\<close>:
  \<^verbatim>\<open>{\n  "score": "number (0..maxScore, preferably integer)",\n  "maxScore": "number",\n\<close>
  \<^verbatim>\<open>  "rationale": "string (\u7E3D\u8A55\uFF0C100~200\u5B57)",\n  "strengths": "string[]\<close>
  \<^verbatim>\<open>",\n  "missingPoints": "string[]",\n  "improvements": "string[]",\n  "suggestedOutli\<close>
  \<^verbatim>\<open>ne": "string[] (\u7528\u53EF\u76F4\u63A5\u6284\u5BEB\u7684\u7B54\u984C\u6BB5\u843D\<close>
  \<^verbatim>\<open>\u9AA8\u67B6)",\n  "booklistAlignment": {\n    "topics": "string[] (\u5F9E\u984C\<close>
  \<^verbatim>\<open>\u76EE\u5C0D\u61C9\u4E3B\u984C\u6311)",\n    "refsToReview": "string[] (\u53EA\u80FD\<close>
  \<^verbatim>\<open>\u5F9E\u5B98\u65B9\u66F8\u55AE\u5C0D\u7167\u51FA\u73FE\u904E\u7684\u689D\u76EE\u6311\<close>
  \<^verbatim>\<open>)"\n  },\n  "nextDrill": {\n    "prompt": "string (\u4E0B\u4E00\u984C\u7DF4\u7FD2\<close>
  \<^verbatim>\<open>\u984C\uFF0C\u8ACB\u4F60\u51FA\u4E00\u984C\u540C\u984C\u578B\u4F46\u63DB\u60C5\u5883\<close>
  \<^verbatim>\<open>\u7684\u984C\u76EE)",\n    "timeboxMinutes": "number (\u5EFA\u8B70\u7DF4\u7FD2\u6642\<close>
  \<^verbatim>\<open>\u9593)"\n  }\n}\<close>
\<close>

definition outputContract_server :: jstring where
  "outputContract_server =
     [123, 10, 32, 32, 34, 115, 99, 111, 114, 101, 34, 58, 32, 34, 110, 117, 109, 98, 101,
      114, 32, 40, 48, 46, 46, 109, 97, 120, 83, 99, 111, 114, 101, 44, 32, 112, 114, 101,
      102, 101, 114, 97, 98, 108, 121, 32, 105, 110, 116, 101, 103, 101, 114, 41, 34, 44,
      10, 32, 32, 34, 109, 97, 120, 83, 99, 111, 114, 101, 34, 58, 32, 34, 110, 117, 109,
      98, 101, 114, 34, 44, 10, 32, 32, 34, 114, 97, 116, 105, 111, 110, 97, 108, 101, 34,
      58, 32, 34, 115, 116, 114, 105, 110, 103, 32, 40, 32317, 35413, 65292, 49, 48, 48,
      126, 50, 48, 48, 23383, 41, 34, 44, 10, 32, 32, 34, 115, 116, 114, 101, 110, 103, 116,
      104, 115, 34, 58, 32, 34, 115, 116, 114, 105, 110, 103, 91, 93, 34, 44, 10, 32, 32,
      34, 109, 105, 115, 115, 105, 110, 103, 80, 111, 105, 110, 116, 115, 34, 58, 32, 34,
      115, 116, 114, 105, 110, 103, 91, 93, 34, 44, 10, 32, 32, 34, 105, 109, 112, 114, 111,
      118, 101, 109, 101, 110, 116, 115, 34, 58, 32, 34, 115, 116, 114, 105, 110, 103, 91,
      93, 34, 44, 10, 32, 32, 34, 115, 117, 103, 103, 101, 115, 116, 101, 100, 79, 117, 116,
      108, 105, 110, 101, 34, 58, 32, 34, 115, 116, 114, 105, 110, 103, 91, 93, 32, 40,
      29992, 21487, 30452, 25509, 25220, 23531, 30340, 31572, 38988, 27573, 33853, 39592,
      26550, 41, 34, 44, 10, 32, 32, 34, 98, 111, 111, 107, 108, 105, 115, 116, 65, 108,
      105, 103, 110, 109, 101, 110, 116, 34, 58, 32, 123, 10, 32, 32, 32, 32, 34, 116, 111,
      112, 105, 99, 115, 34, 58, 32, 34, 115, 116, 114, 105, 110, 103, 91, 93, 32, 40,
      24478, 38988, 30446, 23565, 25033, 20027, 38988, 25361, 41, 34, 44, 10, 32, 32, 32,
      32, 34, 114, 101, 102, 115, 84, 111, 82, 101, 118, 105, 101, 119, 34, 58, 32, 34, 115,
      116, 114, 105, 110, 103, 91, 93, 32, 40, 21482, 33021, 24478, 23448, 26041, 26360,
      21934, 23565, 29031, 20986, 29694, 36942, 30340, 26781, 30446, 25361, 41, 34, 10, 32,
      32, 125, 44, 10, 32, 32, 34, 110, 101, 120, 116, 68, 114, 105, 108, 108, 34, 58, 32,
      123, 10, 32, 32, 32, 32, 34, 112, 114, 111, 109, 112, 116, 34, 58, 32, 34, 115, 116,
      114, 105, 110, 103, 32, 40, 19979, 19968, 38988, 32244, 32722, 38988, 65292, 35531,
      20320, 20986, 19968, 38988, 21516, 38988, 22411, 20294, 25563, 24773, 22659, 30340,
      38988, 30446, 41, 34, 44, 10, 32, 32, 32, 32, 34, 116, 105, 109, 101, 98, 111, 120,
      77, 105, 110, 117, 116, 101, 115, 34, 58, 32, 34, 110, 117, 109, 98, 101, 114, 32, 40,
      24314, 35696, 32244, 32722, 26178, 38291, 41, 34, 10, 32, 32, 125, 10, 125]"

text \<open>
  \<^verbatim>\<open>JSON.stringify(outputContract, null, 2)\<close> in \<^verbatim>\<open>grader.js\<close>:
  \<^verbatim>\<open>{\n  "score": "number (0..maxScore, preferably integer)",\n  "maxScore": "number",\n\<close>
  \<^verbatim>\<open>  "rationale": "string (\u7E3D\u8A55\uFF0C100~200\u5B57)",\n  "strengths": "string[]\<close>
  \<^verbatim>\<open>",\n  "missingPoints": "string[]",\n  "improvements": "string[]",\n  "suggestedOutli\<close>
  \<^verbatim>\<open>ne": "string[] (\u7528\u53EF\u76F4\u63A5\u6284\u5BEB\u7684\u7B54\u984C\u6BB5\u843D\<close>
  \<^verbatim>\<open>\u9AA8\u67B6)",\n  "nextDrill": {\n    "prompt": "string (\u4E0B\u4E00\u984C\u7DF4\<close>
  \<^verbatim>\<open>\u7FD2\u984C\uFF0C\u8ACB\u4F60\u51FA\u4E00\u984C\u540C\u984C\u578B\u4F46\u63DB\u60C5\<close>
  \<^verbatim>\<open>\u5883\u7684\u984C\u76EE)",\n    "timeboxMinutes": "number (\u5EFA\u8B70\u7DF4\u7FD2\<close>
  \<^verbatim>\<open>\u6642\u9593)"\n  }\n}\<close>
\<close>

definition outputContract_static :: jstring where
  "outputContract_static =
     [123, 10, 32, 32, 34, 115, 99, 111, 114, 101, 34, 58, 32, 34, 110, 117, 109, 98, 101,
      114, 32, 40, 48, 46, 46, 109, 97, 120, 83, 99, 111, 114, 101, 44, 32, 112, 114, 101,
      102, 101, 114, 97, 98, 108, 121, 32, 105, 110, 116, 101, 103, 101, 114, 41, 34, 44,
      10, 32, 32, 34, 109, 97, 120, 83, 99, 111, 114, 101, 34, 58, 32, 34, 110, 117, 109,
      98, 101, 114, 34, 44, 10, 32, 32, 34, 114, 97, 116, 105, 111, 110, 97, 108, 101, 34,
      58, 32, 34, 115, 116, 114, 105, 110, 103, 32, 40, 32317, 35413, 65292, 49, 48, 48,
      126, 50, 48, 48, 23383, 41, 34, 44, 10, 32, 32, 34, 115, 116, 114, 101, 110, 103, 116,
      104, 115, 34, 58, 32, 34, 115, 116, 114, 105, 110, 103, 91, 93, 34, 44, 10, 32, 32,
      34, 109, 105, 115, 115, 105, 110, 103, 80, 111, 105, 110, 116, 115, 34, 58, 32, 34,
      115, 116, 114, 105, 110, 103, 91, 93, 34, 44, 10, 32, 32, 34, 105, 109, 112, 114, 111,
      118, 101, 109, 101, 110, 116, 115, 34, 58, 32, 34, 115, 116, 114, 105, 110, 103, 91,
      93, 34, 44, 10, 32, 32, 34, 115, 117, 103, 103, 101, 115, 116, 101, 100, 79, 117, 116,
      108, 105, 110, 101, 34, 58, 32, 34, 115, 116, 114, 105, 110, 103, 91, 93, 32, 40,
      29992, 21487, 30452, 25509, 25220, 23531, 30340, 31572, 38988, 27573, 33853, 39592,
      26550, 41, 34, 44, 10, 32, 32, 34, 110, 101, 120, 116, 68, 114, 105, 108, 108, 34, 58,
      32, 123, 10, 32, 32, 32, 32, 34, 112, 114, 111, 109, 112, 116, 34, 58, 32, 34, 115,
      116, 114, 105, 110, 103, 32, 40, 19979, 19968, 38988, 32244, 32722, 38988, 65292,
      35531, 20320, 20986, 19968, 38988, 21516, 38988, 22411, 20294, 25563, 24773, 22659,
      30340, 38988, 30446, 41, 34, 44, 10, 32, 32, 32, 32, 34, 116, 105, 109, 101, 98, 111,
      120, 77, 105, 110, 117, 116, 101, 115, 34, 58, 32, 34, 110, 117, 109, 98, 101, 114,
      32, 40, 24314, 35696, 32244, 32722, 26178, 38291, 41, 34, 10, 32, 32, 125, 10, 125]"

text \<open>
  The rationale of the fallback result in \<^verbatim>\<open>server.js\<close>:
  \<^verbatim>\<open>\u6A21\u578B\u56DE\u50B3\u683C\u5F0F\u4E0D\u662F JSON\uFF0C\u8ACB\u91CD\u8A66\u3002\<close>
\<close>

definition rationale_not_json :: jstring where
  "rationale_not_json =
     [27169, 22411, 22238, 20659, 26684, 24335, 19981, 26159, 32, 74, 83, 79, 78, 65292,
      35531, 37325, 35430, 12290]"

text \<open>
  The rationale of the fallback result in \<^verbatim>\<open>grader.js\<close>:
  \<^verbatim>\<open>AI \u56DE\u50B3\u683C\u5F0F\u7121\u6CD5\u89E3\u6790\uFF0C\u8ACB\u91CD\u8A66\u3002\<close>
\<close>

definition rationale_unparsable :: jstring where
  "rationale_unparsable =
     [65, 73, 32, 22238, 20659, 26684, 24335, 28961, 27861, 35299, 26512, 65292, 35531,
      37325, 35430, 12290]"

section \<open>\<^verbatim>\<open>server.js\<close>\<close>

subsection \<open>Models\<close>






subsection \<open>Provider adapters\<close>

definition err_missing_openai :: error where
  "err_missing_openai =
     Error (str ''Missing OpenAI API key (set env OPENAI_API_KEY or input it in the UI)'')"

definition err_format_openai :: error where
  "err_format_openai = Error (str ''OpenAI API key format looks invalid'')"

definition err_empty_openai :: error where
  "err_empty_openai = Error (str ''OpenAI API returned empty content'')"

definition err_missing_google :: error where
  "err_missing_google =
     Error (str ''Missing Google API key (set env GOOGLE_API_KEY/GEMINI_API_KEY or input it in the UI)'')"

definition err_missing_google_model :: error where
  "err_missing_google_model = Error (str ''Missing Google model'')"

definition err_google_model_chars :: error where
  "err_google_model_chars = Error (str ''Google model name contains invalid characters'')"

definition err_empty_google :: error where
  "err_empty_google = Error (str ''Google API returned empty content'')"

definition err_missing_anthropic :: error where
  "err_missing_anthropic =
     Error (str ''Missing Anthropic API key (set env ANTHROPIC_API_KEY or input it in the UI)'')"

definition err_format_anthropic :: error where
  "err_format_anthropic = Error (str ''Anthropic API key format looks invalid'')"

definition err_empty_anthropic :: error where
  "err_empty_anthropic = Error (str ''Anthropic API returned empty content'')"

text \<open>
  \<open>first_truthy\<close> is the chain \<^verbatim>\<open>a || b || c\<close> over strings that may be absent: the first
  non-empty one.
\<close>

fun first_truthy :: "jstring option list \<Rightarrow> jstring option" where
  "first_truthy [] = None"
| "first_truthy [x] = x"
| "first_truthy (None # xs) = first_truthy xs"
| "first_truthy (Some s # xs) = (if s = [] then first_truthy xs else Some s)"

text \<open>
  \<open>api_error res name\<close> is what an adapter throws on a response that is not ok:
  \<^verbatim>\<open>new Error(data?.error?.message || `NAME API error (${res.status})`)\<close>.
\<close>

definition api_error :: "response \<Rightarrow> jstring \<Rightarrow> error + 'a" where
  "api_error res name =
     bind (to_string
            (or_else (opt_get (opt_get (data res) (str ''error'')) (str ''message''))
               (JStr (name @ str '' API error ('' @ digits (status res) @ str '')''))))
       (\<lambda>msg. Inl (Error msg))"

text \<open>
  What each vendor's response holds of the reply: the content of the first choice, the
  parts of the first candidate, the content parts.
\<close>

definition openai_content :: "jsval \<Rightarrow> jsval" where
  "openai_content d =
     opt_get (opt_get (opt_idx (opt_get d (str ''choices'')) 0) (str ''message'')) (str ''content'')"

definition google_parts :: "jsval \<Rightarrow> jsval" where
  "google_parts d =
     opt_get (opt_get (opt_idx (opt_get d (str ''candidates'')) 0) (str ''content'')) (str ''parts'')"

definition claude_parts :: "jsval \<Rightarrow> jsval" where
  "claude_parts d = opt_get d (str ''content'')"

text \<open>
  \<open>parts_text filtered parts\<close> is \<^verbatim>\<open>parts.map((p) => p?.text).filter(Boolean).join("")\<close>
  when \<open>filtered\<close>, and the same without the filter (as \<^verbatim>\<open>grader.js\<close> has it) when not.
  \<open>joined_text filtered parts d\<close> is \<^verbatim>\<open>Array.isArray(parts) ? ... : d\<close>.
\<close>

definition parts_text :: "bool \<Rightarrow> jsval list \<Rightarrow> error + jstring" where
  "parts_text filtered parts =
     (let ts = map (\<lambda>p. opt_get p (str ''text'')) parts
      in join_vals [] (if filtered then filter truthy ts else ts))"

definition joined_text :: "bool \<Rightarrow> jsval \<Rightarrow> jsval \<Rightarrow> error + jsval" where
  "joined_text filtered parts d =
     (case parts of
        JArr xs ps \<Rightarrow> bind (parts_text filtered xs) (\<lambda>t. Inr (JStr t))
      | _ \<Rightarrow> Inr d)"

text \<open>
  \<open>checked_text err text\<close> is
  \<^verbatim>\<open>if (typeof text !== "string" || !text.trim()) throw err; return text\<close>.
\<close>

definition checked_text :: "error \<Rightarrow> jsval \<Rightarrow> error + jstring" where
  "checked_text err text =
     (case text of
        JStr c \<Rightarrow> if trim c = [] then Inl err else Inr c
      | _ \<Rightarrow> Inl err)"

text \<open>The adapters of \<^verbatim>\<open>server.js\<close>; \<open>*_reply\<close> is the part after \<^verbatim>\<open>fetch\<close>.\<close>

definition openai_reply :: "response \<Rightarrow> error + jstring" where
  "openai_reply res =
     (if \<not> ok res then api_error res (str ''OpenAI'')
      else checked_text err_empty_openai (openai_content (data res)))"

definition callOpenAI :: "env \<Rightarrow> fetch \<Rightarrow> jstring \<Rightarrow> jstring \<Rightarrow> chat_message list \<Rightarrow> error + jstring" where
  "callOpenAI e fetch apiKey model messages =
     (case first_truthy [Some (trim apiKey), OPENAI_API_KEY e] of
        None \<Rightarrow> Inl err_missing_openai
      | Some resolvedKey \<Rightarrow>
         if resolvedKey = [] then Inl err_missing_openai
         else if \<not> startsWith resolvedKey (str ''sk-'') \<or> length resolvedKey < 20
         then Inl err_format_openai
         else bind (fetch (OpenAIRequest resolvedKey model messages)) openai_reply)"

definition sanitizeGoogleModel :: "jstring \<Rightarrow> error + jstring" where
  "sanitizeGoogleModel model =
     (let trimmed = trim model;
          withoutPrefix =
            (if startsWith trimmed (str ''models/'') then drop 7 trimmed else trimmed)
      in if withoutPrefix = [] then Inl err_missing_google_model
         else if includes_str withoutPrefix [47] \<or> includes_str withoutPrefix [63]
                 \<or> includes_str withoutPrefix [35]
         then Inl err_google_model_chars
         else Inr withoutPrefix)"

definition google_reply :: "response \<Rightarrow> error + jstring" where
  "google_reply res =
     (if \<not> ok res then api_error res (str ''Google'')
      else bind (joined_text True (google_parts (data res)) JNull) (checked_text err_empty_google))"

definition callGoogle :: "env \<Rightarrow> fetch \<Rightarrow> jstring \<Rightarrow> jstring \<Rightarrow> jstring \<Rightarrow> jstring \<Rightarrow> error + jstring" where
  "callGoogle e fetch apiKey model system user =
     (case first_truthy [Some (trim apiKey), GOOGLE_API_KEY e, GEMINI_API_KEY e] of
        None \<Rightarrow> Inl err_missing_google
      | Some resolvedKey \<Rightarrow>
         if resolvedKey = [] then Inl err_missing_google
         else
           bind (sanitizeGoogleModel model) (\<lambda>safeModel.
             if \<not> well_formed safeModel \<or> \<not> well_formed resolvedKey then Inl URIError
             else bind (fetch (GoogleRequest safeModel resolvedKey system user)) google_reply))"

definition claude_reply :: "response \<Rightarrow> error + jstring" where
  "claude_reply res =
     (if \<not> ok res then api_error res (str ''Anthropic'')
      else bind (joined_text True (claude_parts (data res)) JNull)
             (checked_text err_empty_anthropic))"

definition callClaude :: "env \<Rightarrow> fetch \<Rightarrow> jstring \<Rightarrow> jstring \<Rightarrow> jstring \<Rightarrow> jstring \<Rightarrow> error + jstring" where
  "callClaude e fetch apiKey model system user =
     (case first_truthy [Some (trim apiKey), ANTHROPIC_API_KEY e] of
        None \<Rightarrow> Inl err_missing_anthropic
      | Some resolvedKey \<Rightarrow>
         if resolvedKey = [] then Inl err_missing_anthropic
         else if length resolvedKey < 20 then Inl err_format_anthropic
         else bind (fetch (ClaudeRequest resolvedKey model system user False)) claude_reply)"

subsection \<open>Prompt builder\<close>

definition msg :: "jstring \<Rightarrow> jstring \<Rightarrow> chat_message" where
  "msg r c = \<lparr>role = r, content = c\<rparr>"

text \<open>The parts of the user message that both files build in the same way.\<close>

definition header_part :: "question \<Rightarrow> jsnum \<Rightarrow> jstring" where
  "header_part q maxScore =
     hdr_open @ q_section q @ hdr_bar @ NumberToString maxScore @ hdr_close @ q_text q"

text \<open>\<^verbatim>\<open>if (question.booklistTopics?.length)\<close>: an absent or empty list adds nothing.\<close>

definition topics_part :: "question \<Rightarrow> jstring list" where
  "topics_part q =
     (case booklistTopics q of
        None \<Rightarrow> []
      | Some ts \<Rightarrow> if ts = [] then [] else [topics_intro @ join_strs topics_sep ts])"

text \<open>\<^verbatim>\<open>if (typeof elapsedSeconds === "number")\<close>.\<close>

definition elapsed_part :: "jsval \<Rightarrow> jstring list" where
  "elapsed_part elapsedSeconds =
     (case elapsedSeconds of
        JNum n \<Rightarrow> [elapsed_intro @ NumberToString n @ elapsed_unit]
      | _ \<Rightarrow> [])"

text \<open>\<^verbatim>\<open>if (snippet)\<close>: \<^verbatim>\<open>null\<close> or the empty string adds nothing.\<close>

definition snippet_part :: "jstring \<Rightarrow> jstring option \<Rightarrow> jstring list" where
  "snippet_part intro snippet =
     (case snippet of
        None \<Rightarrow> []
      | Some s \<Rightarrow> if s = [] then [] else [intro @ s])"

definition buildGradingMessages ::
    "question \<Rightarrow> jstring \<Rightarrow> jsnum \<Rightarrow> jsval \<Rightarrow> jstring option \<Rightarrow> jstring option \<Rightarrow> chat_message list" where
  "buildGradingMessages q answer maxScore elapsedSeconds notesSnippet booklistSnippet =
     (let system =
            join_strs [10] [sys_persona, sys_language, sys_booklist_only, sys_criteria, sys_json_only];
          userParts =
            [header_part q maxScore] @ topics_part q @ elapsed_part elapsedSeconds
            @ [answer_intro @ answer]
            @ snippet_part notes_intro notesSnippet
            @ snippet_part booklist_intro booklistSnippet
            @ [contract_intro @ outputContract_server, requirement]
      in [msg (str ''system'') system, msg (str ''user'') (join_strs [10, 10] userParts)])"

subsection \<open>Result normalizer\<close>

text \<open>
  \<open>default_array strict p k\<close> is \<^verbatim>\<open>if (!Array.isArray(p.k)) p.k = []\<close>, and
  \<open>default_array_in strict p o k\<close> the same on \<^verbatim>\<open>p.o.k\<close>. The inner object is changed in
  place; the model writes it back under \<open>o\<close>, where it already is.
\<close>

definition default_array :: "bool \<Rightarrow> jsval \<Rightarrow> jstring \<Rightarrow> error + jsval" where
  "default_array strict p k =
     bind (get p k) (\<lambda>v. if \<not> isArray v then put strict p k (JArr [] []) else Inr p)"

definition default_array_in :: "bool \<Rightarrow> jsval \<Rightarrow> jstring \<Rightarrow> jstring \<Rightarrow> error + jsval" where
  "default_array_in strict p outer k =
     bind (get p outer) (\<lambda>b.
     bind (default_array strict b k) (\<lambda>b'. put strict p outer b'))"

definition empty_alignment :: jsval where
  "empty_alignment = JObj [(str ''topics'', JArr [] []), (str ''refsToReview'', JArr [] [])]"

definition default_drill :: jsval where
  "default_drill = JObj [(str ''prompt'', JStr []), (str ''timeboxMinutes'', JNum (Fin 10))]"

text \<open>
  Lines 459 to 476 of \<^verbatim>\<open>handleGrade\<close>: the assignments to \<^verbatim>\<open>parsed\<close>, in order. The file
  is a CommonJS script without \<^verbatim>\<open>"use strict"\<close>, so assignments are sloppy.
\<close>

definition norm_score :: "jsnum \<Rightarrow> jsval \<Rightarrow> error + jsval" where
  "norm_score maxScore parsed =
     bind (put False parsed (str ''maxScore'') (JNum maxScore)) (\<lambda>p1.
     bind (get p1 (str ''score'')) (\<lambda>s1.
     bind (if typeof s1 \<noteq> str ''number'' \<or> \<not> (case s1 of JNum n \<Rightarrow> isFinite n | _ \<Rightarrow> False)
           then put False p1 (str ''score'') (JNum (Fin 0)) else Inr p1) (\<lambda>p2.
     bind (get p2 (str ''score'')) (\<lambda>s2.
     bind (to_number s2) (\<lambda>n2.
       put False p2 (str ''score'') (JNum (Math_max (Fin 0) (Math_min maxScore n2))))))))"

definition norm_arrays :: "jsval \<Rightarrow> error + jsval" where
  "norm_arrays p =
     bind (default_array False p (str ''strengths'')) (\<lambda>p1.
     bind (default_array False p1 (str ''missingPoints'')) (\<lambda>p2.
     bind (default_array False p2 (str ''improvements'')) (\<lambda>p3.
       default_array False p3 (str ''suggestedOutline''))))"

definition norm_alignment :: "jsval \<Rightarrow> error + jsval" where
  "norm_alignment p =
     bind (get p (str ''booklistAlignment'')) (\<lambda>b.
     bind (if \<not> truthy b \<or> typeof b \<noteq> str ''object''
           then put False p (str ''booklistAlignment'') empty_alignment else Inr p) (\<lambda>p1.
     bind (default_array_in False p1 (str ''booklistAlignment'') (str ''topics'')) (\<lambda>p2.
       default_array_in False p2 (str ''booklistAlignment'') (str ''refsToReview''))))"

definition norm_drill :: "jsval \<Rightarrow> error + jsval" where
  "norm_drill p =
     bind (get p (str ''nextDrill'')) (\<lambda>d.
     bind (if \<not> truthy d \<or> typeof d \<noteq> str ''object''
           then put False p (str ''nextDrill'') default_drill else Inr p) (\<lambda>p1.
     bind (get p1 (str ''nextDrill'')) (\<lambda>d1.
     bind (get d1 (str ''prompt'')) (\<lambda>pr.
     bind (if typeof pr \<noteq> str ''string'' then put False d1 (str ''prompt'') (JStr [])
           else Inr d1) (\<lambda>d2.
     bind (get d2 (str ''timeboxMinutes'')) (\<lambda>t.
     bind (clampNumber t (Fin 5) (Fin 120) (Fin 15)) (\<lambda>c.
     bind (put False d2 (str ''timeboxMinutes'') (JNum c)) (\<lambda>d3.
       put False p1 (str ''nextDrill'') d3))))))))"

definition normalize_server :: "jsnum \<Rightarrow> jsval \<Rightarrow> error + jsval" where
  "normalize_server maxScore parsed =
     bind (norm_score maxScore parsed) (\<lambda>p1.
     bind (norm_arrays p1) (\<lambda>p2.
     bind (norm_alignment p2) (\<lambda>p3.
       norm_drill p3)))"

subsection \<open>Orchestrator\<close>

text \<open>
  What \<^verbatim>\<open>handleGrade\<close> answers: \<^verbatim>\<open>sendError(res, status, message)\<close> or
  \<^verbatim>\<open>sendJson(res, status, obj)\<close>; \<open>obj\<close> is the value before \<^verbatim>\<open>JSON.stringify\<close>. An error it
  throws is an \<open>Inl\<close> (the server answers it with status 500).
\<close>

datatype outcome = SendError nat jstring | SendJson nat jsval

definition fallback_server :: "jsnum \<Rightarrow> jsval" where
  "fallback_server maxScore =
     JObj [(str ''score'', JNum (Fin 0)),
           (str ''maxScore'', JNum maxScore),
           (str ''rationale'', JStr rationale_not_json),
           (str ''strengths'', JArr [] []),
           (str ''missingPoints'', JArr [] []),
           (str ''improvements'', JArr [] []),
           (str ''suggestedOutline'', JArr [] []),
           (str ''booklistAlignment'', empty_alignment),
           (str ''nextDrill'', default_drill)]"

definition reply :: "jsval \<Rightarrow> jstring \<Rightarrow> outcome" where
  "reply result raw = SendJson 200 (JObj [(str ''result'', result), (str ''raw'', JStr raw)])"

text \<open>Lines 441 to 478: from the raw reply to the answer.\<close>

definition grade_reply :: "jsnum \<Rightarrow> jstring \<Rightarrow> error + outcome" where
  "grade_reply maxScore raw =
     (let parsed = safeJsonParse (JStr raw) in
      if \<not> truthy parsed then Inr (reply (fallback_server maxScore) raw)
      else bind (normalize_server maxScore parsed) (\<lambda>p. Inr (reply p raw)))"

text \<open>Lines 433 to 440: the adapter of the provider.\<close>

definition call_provider ::
    "env \<Rightarrow> fetch \<Rightarrow> jstring \<Rightarrow> jstring \<Rightarrow> jstring \<Rightarrow> chat_message list \<Rightarrow> error + jstring" where
  "call_provider e fetch provider apiKey model messages =
     (let system = (case messages of m # ms \<Rightarrow> content m | [] \<Rightarrow> []);
          user = (case messages of m # m' # ms \<Rightarrow> content m' | _ \<Rightarrow> [])
      in if provider = str ''google'' then callGoogle e fetch apiKey model system user
         else if provider = str ''claude'' then callClaude e fetch apiKey model system user
         else callOpenAI e fetch apiKey model messages)"




section \<open>\<^verbatim>\<open>grader.js\<close>\<close>

text \<open>
  The static page runs the same pipeline in the browser. The file is an ES module, so its
  assignments are strict. Its adapters take the key as given and return whatever text
  they find.
\<close>

definition STATIC_OPENAI_MODEL :: jstring where
  "STATIC_OPENAI_MODEL = str ''gpt-4o-mini''"

definition STATIC_GOOGLE_MODEL :: jstring where
  "STATIC_GOOGLE_MODEL = str ''gemini-1.5-flash''"

definition STATIC_CLAUDE_MODEL :: jstring where
  "STATIC_CLAUDE_MODEL = str ''claude-3-5-sonnet-20241022''"

definition or_default :: "jstring \<Rightarrow> jstring \<Rightarrow> jstring" where
  "or_default s d = (if s = [] then d else s)"

definition static_buildGradingMessages ::
    "question \<Rightarrow> jstring \<Rightarrow> jsnum \<Rightarrow> jsval \<Rightarrow> chat_message list" where
  "static_buildGradingMessages q answer maxScore elapsedSeconds =
     (let system = join_strs [10] [sys_persona, sys_language, sys_criteria, sys_json_only];
          userParts =
            [header_part q maxScore] @ topics_part q @ elapsed_part elapsedSeconds
            @ [answer_intro @ answer]
            @ [contract_intro @ outputContract_static, requirement]
      in [msg (str ''system'') system, msg (str ''user'') (join_strs [10, 10] userParts)])"

definition static_openai_reply :: "response \<Rightarrow> error + jsval" where
  "static_openai_reply res =
     (if \<not> ok res then api_error res (str ''OpenAI'')
      else Inr (or_else (openai_content (data res)) (JStr [])))"

definition static_callOpenAI :: "fetch \<Rightarrow> jstring \<Rightarrow> jstring \<Rightarrow> chat_message list \<Rightarrow> error + jsval" where
  "static_callOpenAI fetch apiKey model messages =
     (if apiKey = [] then Inl (Error (str ''Missing OpenAI API key''))
      else bind (fetch (OpenAIRequest apiKey (or_default model STATIC_OPENAI_MODEL) messages))
             static_openai_reply)"

definition static_google_reply :: "response \<Rightarrow> error + jsval" where
  "static_google_reply res =
     (if \<not> ok res then api_error res (str ''Google'')
      else joined_text False (google_parts (data res)) (JStr []))"

definition static_callGoogle :: "fetch \<Rightarrow> jstring \<Rightarrow> jstring \<Rightarrow> jstring \<Rightarrow> jstring \<Rightarrow> error + jsval" where
  "static_callGoogle fetch apiKey model system user =
     (if apiKey = [] then Inl (Error (str ''Missing Google API key''))
      else
        (let m = or_default model STATIC_GOOGLE_MODEL;
             safeModel = (if startsWith m (str ''models/'') then drop 7 m else m)
         in if \<not> well_formed safeModel \<or> \<not> well_formed apiKey then Inl URIError
            else bind (fetch (GoogleRequest safeModel apiKey system user)) static_google_reply))"

definition static_claude_reply :: "response \<Rightarrow> error + jsval" where
  "static_claude_reply res =
     (if \<not> ok res then api_error res (str ''Anthropic'')
      else joined_text False (claude_parts (data res)) (JStr []))"

definition static_callClaude :: "fetch \<Rightarrow> jstring \<Rightarrow> jstring \<Rightarrow> jstring \<Rightarrow> jstring \<Rightarrow> error + jsval" where
  "static_callClaude fetch apiKey model system user =
     (if apiKey = [] then Inl (Error (str ''Missing Anthropic API key''))
      else bind (fetch (ClaudeRequest apiKey (or_default model STATIC_CLAUDE_MODEL) system user True))
             static_claude_reply)"

text \<open>Lines 211 to 218 of \<^verbatim>\<open>gradeAnswer\<close>.\<close>

definition normalize_static :: "jsnum \<Rightarrow> jsval \<Rightarrow> error + jsval" where
  "normalize_static maxScore parsed =
     bind (put True parsed (str ''maxScore'') (JNum maxScore)) (\<lambda>p1.
     bind (get p1 (str ''score'')) (\<lambda>s.
     bind (to_number s) (\<lambda>n.
     bind (to_number (or_else (JNum n) (JNum (Fin 0)))) (\<lambda>n'.
     bind (put True p1 (str ''score'') (JNum (Math_max (Fin 0) (Math_min maxScore n')))) (\<lambda>p2.
     bind (default_array True p2 (str ''strengths'')) (\<lambda>p3.
     bind (default_array True p3 (str ''missingPoints'')) (\<lambda>p4.
     bind (default_array True p4 (str ''improvements'')) (\<lambda>p5.
       default_array True p5 (str ''suggestedOutline'')))))))))"

definition fallback_static :: "jsnum \<Rightarrow> jsval \<Rightarrow> jsval" where
  "fallback_static maxScore raw =
     JObj [(str ''result'',
            JObj [(str ''score'', JNum (Fin 0)),
                  (str ''maxScore'', JNum maxScore),
                  (str ''rationale'', JStr rationale_unparsable),
                  (str ''raw'', raw)])]"

text \<open>Lines 199 to 220: from the raw reply to the value \<^verbatim>\<open>gradeAnswer\<close> returns.\<close>

definition static_grade_reply :: "jsnum \<Rightarrow> jsval \<Rightarrow> error + jsval" where
  "static_grade_reply maxScore raw =
     (let parsed = safeJsonParse raw in
      if \<not> truthy parsed then Inr (fallback_static maxScore raw)
      else bind (normalize_static maxScore parsed) (\<lambda>p.
             Inr (JObj [(str ''result'', p), (str ''raw'', raw)])))"

definition static_call_provider ::
    "fetch \<Rightarrow> jstring \<Rightarrow> jstring \<Rightarrow> jstring \<Rightarrow> chat_message list \<Rightarrow> error + jsval" where
  "static_call_provider fetch provider apiKey model messages =
     (let system = content (messages ! 0);
          user = content (messages ! 1)
      in if provider = str ''google'' then static_callGoogle fetch apiKey model system user
         else if provider = str ''claude'' then static_callClaude fetch apiKey model system user
         else static_callOpenAI fetch apiKey model messages)"


section \<open>Notions used to state the properties\<close>

text \<open>
  \<open>is_object v\<close>: \<open>v\<close> is an object or an array, the values with \<^verbatim>\<open>typeof v === "object"\<close>
  that are not \<^verbatim>\<open>null\<close>. On these every read and assignment of a property succeeds;
  \<open>with_prop v k x\<close> is \<open>v\<close> after \<^verbatim>\<open>v.k = x\<close>.
\<close>

fun is_object :: "jsval \<Rightarrow> bool" where
  "is_object (JObj ps) = True"
| "is_object (JArr xs ps) = True"
| "is_object _ = False"

fun with_prop :: "jsval \<Rightarrow> jstring \<Rightarrow> jsval \<Rightarrow> jsval" where
  "with_prop (JObj ps) k x = JObj (upd k x ps)"
| "with_prop (JArr xs ps) k x = JArr xs (upd k x ps)"
| "with_prop v k x = v"

text \<open>The empty-array-on-mismatch rule.\<close>

definition arr_or_empty :: "jsval \<Rightarrow> jsval" where
  "arr_or_empty v = (if isArray v then v else JArr [] [])"

text \<open>Clamping to \<open>[lo, hi]\<close> as the code writes it for the score and for the time box.\<close>

definition clamp_score :: "jsnum \<Rightarrow> jsnum \<Rightarrow> jsnum" where
  "clamp_score maxScore n = Math_max (Fin 0) (Math_min maxScore n)"

definition clamp_minutes :: "jsnum \<Rightarrow> jsnum" where
  "clamp_minutes x = (if isFinite x then Math_min (Fin 120) (Math_max (Fin 5) x) else Fin 15)"

text \<open>
  \<open>finite_or_zero v\<close>: the number \<open>v\<close> if it is a finite number, zero for every other value
  (no coercion).
\<close>

definition finite_or_zero :: "jsval \<Rightarrow> jsnum" where
  "finite_or_zero v = (case v of JNum n \<Rightarrow> if isFinite n then n else Fin 0 | _ \<Rightarrow> Fin 0)"

text \<open>\<open>nonzero_or_zero n\<close> is \<^verbatim>\<open>n || 0\<close> on a number: NaN becomes zero.\<close>

definition nonzero_or_zero :: "jsnum \<Rightarrow> jsnum" where
  "nonzero_or_zero n = (if n = NaN then Fin 0 else n)"

text \<open>\<open>object_shaped v\<close> is the test the code makes of a nested object: truthy and of type object.\<close>

definition object_shaped :: "jsval \<Rightarrow> bool" where
  "object_shaped v \<longleftrightarrow> truthy v \<and> typeof v = str ''object''"

text \<open>
  \<open>drill_source p\<close> is the object that \<^verbatim>\<open>parsed.nextDrill\<close> is after line 474: the model's
  if it is object-shaped, the default otherwise. \<open>drill_minutes p\<close> is its
  \<^verbatim>\<open>timeboxMinutes\<close>, the value that \<^verbatim>\<open>clampNumber\<close> receives. \<open>alignment_source p\<close> is
  the same for \<^verbatim>\<open>parsed.booklistAlignment\<close> after line 469.
\<close>

definition drill_source :: "jsval \<Rightarrow> jsval" where
  "drill_source p =
     (let d = opt_get p (str ''nextDrill'') in if object_shaped d then d else default_drill)"

definition drill_minutes :: "jsval \<Rightarrow> jsval" where
  "drill_minutes p = opt_get (drill_source p) (str ''timeboxMinutes'')"

definition alignment_source :: "jsval \<Rightarrow> jsval" where
  "alignment_source p =
     (let b = opt_get p (str ''booklistAlignment'')
      in if object_shaped b then b else empty_alignment)"

text \<open>\<open>string_or_empty v\<close>: the string \<open>v\<close>, or the empty string for every other value.\<close>

definition string_or_empty :: "jsval \<Rightarrow> jsval" where
  "string_or_empty v = (case v of JStr s \<Rightarrow> JStr s | _ \<Rightarrow> JStr [])"

text \<open>
  The normalizers in closed form, for an object or array \<open>p\<close>. \<open>server_result m p x\<close> is
  \<open>p\<close> after lines 459 to 476 of \<^verbatim>\<open>server.js\<close>, where \<open>x\<close> is the number that
  \<^verbatim>\<open>clampNumber\<close> makes of \<open>drill_minutes p\<close>; \<open>static_result m p n\<close> is \<open>p\<close> after lines
  212 to 218 of \<^verbatim>\<open>grader.js\<close>, where \<open>n\<close> is \<^verbatim>\<open>Number(parsed.score)\<close>. That the code
  computes them is proved below (\<open>normalize_server_object\<close>, \<open>normalize_static_object\<close>).
\<close>

definition with_arrays :: "jsval \<Rightarrow> jsval \<Rightarrow> jsval" where
  "with_arrays p p1 =
     with_prop (with_prop (with_prop (with_prop p1
       (str ''strengths'') (arr_or_empty (opt_get p (str ''strengths''))))
       (str ''missingPoints'') (arr_or_empty (opt_get p (str ''missingPoints''))))
       (str ''improvements'') (arr_or_empty (opt_get p (str ''improvements''))))
       (str ''suggestedOutline'') (arr_or_empty (opt_get p (str ''suggestedOutline'')))"

definition alignment_result :: "jsval \<Rightarrow> jsval" where
  "alignment_result p =
     with_prop (with_prop (alignment_source p)
       (str ''topics'') (arr_or_empty (opt_get (alignment_source p) (str ''topics''))))
       (str ''refsToReview'') (arr_or_empty (opt_get (alignment_source p) (str ''refsToReview'')))"

definition drill_result :: "jsval \<Rightarrow> jsnum \<Rightarrow> jsval" where
  "drill_result p x =
     with_prop (with_prop (drill_source p)
       (str ''prompt'') (string_or_empty (opt_get (drill_source p) (str ''prompt''))))
       (str ''timeboxMinutes'') (JNum (clamp_minutes x))"

definition server_result :: "jsnum \<Rightarrow> jsval \<Rightarrow> jsnum \<Rightarrow> jsval" where
  "server_result m p x =
     with_prop (with_prop
       (with_arrays p
          (with_prop (with_prop p (str ''maxScore'') (JNum m))
             (str ''score'') (JNum (clamp_score m (finite_or_zero (opt_get p (str ''score'')))))))
       (str ''booklistAlignment'') (alignment_result p))
       (str ''nextDrill'') (drill_result p x)"

definition static_result :: "jsnum \<Rightarrow> jsval \<Rightarrow> jsnum \<Rightarrow> jsval" where
  "static_result m p n =
     with_arrays p
       (with_prop (with_prop p (str ''maxScore'') (JNum m))
          (str ''score'') (JNum (clamp_score m (nonzero_or_zero n))))"

text \<open>The four free-text array fields of a grading result.\<close>

definition array_fields :: "jstring list" where
  "array_fields =
     [str ''strengths'', str ''missingPoints'', str ''improvements'', str ''suggestedOutline'']"




section \<open>Properties\<close>

subsection \<open>Evaluation\<close>

text \<open>
  The range check of a literal compares with the two powers of two only when the value is
  not of ordinary size; evaluation by rewriting uses this equation.
\<close>

lemma round_range_code [code]:
  "round_range q =
     (if q = 0 \<or> (1 / 1000000 \<le> \<bar>q\<bar> \<and> \<bar>q\<bar> \<le> 1000000000000000) then Fin q
      else if 2 ^ 1024 - 2 ^ 970 \<le> \<bar>q\<bar> then (if 0 < q then PInf else NInf)
      else if \<bar>q\<bar> \<le> 1 / 2 ^ 1075 then Fin 0
      else Fin q)"
proof -
  have big: "(1000000000000000::rat) < 2 ^ 1024 - 2 ^ 970" by simp
  have small: "(1::rat) / 2 ^ 1075 < 1 / 1000000" by simp
  show ?thesis
    unfolding round_range_def using big small by auto
qed

subsection \<open>Objects and their properties\<close>


lemma own_upd: "own (upd k x ps) k' = (if k' = k then x else own ps k')"
  by (induction ps) (auto simp: own_def)

lemma upd_same: "map_of ps k = Some x \<Longrightarrow> upd k x ps = ps"
  by (induction ps) (auto split: if_splits)

lemma upd_upd: "upd k y (upd k x ps) = upd k y ps"
  by (induction ps) auto

lemma get_object: "is_object p \<Longrightarrow> get p k = Inr (opt_get p k)"
  by (cases p) simp_all

lemma put_object: "is_object p \<Longrightarrow> put s p k x = Inr (with_prop p k x)"
  by (cases p) simp_all

lemma is_object_with_prop [simp]: "is_object (with_prop p k x) = is_object p"
  by (cases p) simp_all

lemma isArray_with_prop [simp]: "isArray (with_prop p k x) = isArray p"
  by (cases p) simp_all

lemma opt_get_with_prop:
  "is_object p \<Longrightarrow> opt_get (with_prop p k x) k' = (if k' = k then x else opt_get p k')"
  by (cases p) (simp_all add: own_upd)

lemma with_prop_same:
  "opt_get p k = x \<Longrightarrow> x \<noteq> JUndefined \<Longrightarrow> with_prop p k x = p"
  by (cases p) (auto simp: own_def upd_same split: option.splits)

lemma with_prop_twice: "with_prop (with_prop p k x) k y = with_prop p k y"
  by (cases p) (simp_all add: upd_upd)

lemma typeof_object: "typeof v = str ''object'' \<longleftrightarrow> v = JNull \<or> is_object v"
  by (cases v) (simp_all add: str_def)

lemma typeof_number: "typeof v = str ''number'' \<longleftrightarrow> (\<exists>n. v = JNum n)"
  by (cases v) (simp_all add: str_def)

lemma typeof_string: "typeof v = str ''string'' \<longleftrightarrow> (\<exists>s. v = JStr s)"
  by (cases v) (simp_all add: str_def)

lemma object_shaped_iff: "object_shaped v \<longleftrightarrow> is_object v"
  by (cases v) (simp_all add: object_shaped_def str_def)

lemma isFinite_iff: "isFinite n \<longleftrightarrow> (\<exists>q. n = Fin q)"
  by (cases n) simp_all

lemma bind_Inr [simp]: "bind (Inr x) f = f x"
  by (simp add: bind_def)

lemma bind_Inl [simp]: "bind (Inl e) f = Inl e"
  by (simp add: bind_def)

lemma default_array_object:
  "is_object p \<Longrightarrow> default_array s p k = Inr (with_prop p k (arr_or_empty (opt_get p k)))"
proof -
  assume obj: "is_object p"
  show ?thesis
  proof (cases "isArray (opt_get p k)")
    case True
    then have "opt_get p k \<noteq> JUndefined" by auto
    then have "with_prop p k (opt_get p k) = p" by (simp add: with_prop_same)
    with True obj show ?thesis
      by (simp add: default_array_def get_object arr_or_empty_def)
  next
    case False
    with obj show ?thesis
      by (simp add: default_array_def get_object put_object arr_or_empty_def)
  qed
qed

lemma norm_score_object:
  assumes "is_object p"
  shows "norm_score m p =
         Inr (with_prop (with_prop p (str ''maxScore'') (JNum m)) (str ''score'')
                (JNum (clamp_score m (finite_or_zero (opt_get p (str ''score''))))))"
proof -
  let ?p1 = "with_prop p (str ''maxScore'') (JNum m)"
  let ?s = "opt_get p (str ''score'')"
  have s1: "opt_get ?p1 (str ''score'') = ?s"
    using assms by (simp add: opt_get_with_prop str_def)
  show ?thesis
  proof (cases "\<exists>q. ?s = JNum (Fin q)")
    case True
    then obtain q where q: "?s = JNum (Fin q)" by blast
    then show ?thesis using assms s1
      by (simp add: norm_score_def get_object put_object typeof_number finite_or_zero_def
          clamp_score_def)
  next
    case False
    then have fz: "finite_or_zero ?s = Fin 0"
      by (cases ?s) (auto simp: finite_or_zero_def isFinite_iff)
    have c: "typeof ?s \<noteq> str ''number'' \<or> \<not> (case ?s of JNum n \<Rightarrow> isFinite n | _ \<Rightarrow> False)"
      using False by (cases ?s) (auto simp: typeof_number isFinite_iff)
    show ?thesis using assms s1 c fz
      by (simp add: norm_score_def get_object put_object opt_get_with_prop with_prop_twice
          clamp_score_def)
  qed
qed


lemma norm_arrays_object:
  assumes "is_object p"
  shows "norm_arrays p = Inr (with_arrays p p)"
  using assms
  by (simp add: norm_arrays_def with_arrays_def default_array_object opt_get_with_prop str_def)

lemma default_array_in_object:
  assumes "is_object p" and "is_object (opt_get p outer)"
  shows "default_array_in s p outer k =
         Inr (with_prop p outer
                (with_prop (opt_get p outer) k (arr_or_empty (opt_get (opt_get p outer) k))))"
  using assms by (simp add: default_array_in_def get_object default_array_object put_object)

lemma is_object_alignment_source [simp]: "is_object (alignment_source p)"
  by (simp add: alignment_source_def Let_def object_shaped_iff empty_alignment_def)

lemma is_object_drill_source [simp]: "is_object (drill_source p)"
  by (simp add: drill_source_def Let_def object_shaped_iff default_drill_def)

lemma is_object_not_undefined: "is_object v \<Longrightarrow> v \<noteq> JUndefined"
  by auto

lemma norm_alignment_object:
  assumes "is_object p"
  shows "norm_alignment p = Inr (with_prop p (str ''booklistAlignment'') (alignment_result p))"
proof -
  let ?bl = "str ''booklistAlignment''"
  let ?a = "alignment_source p"
  have step1: "(if \<not> truthy (opt_get p ?bl) \<or> typeof (opt_get p ?bl) \<noteq> str ''object''
                then put False p ?bl empty_alignment else Inr p) = Inr (with_prop p ?bl ?a)"
  proof (cases "object_shaped (opt_get p ?bl)")
    case True
    then have "is_object (opt_get p ?bl)" by (simp add: object_shaped_iff)
    then have "with_prop p ?bl (opt_get p ?bl) = p"
      by (intro with_prop_same) auto
    with True show ?thesis
      by (simp add: alignment_source_def object_shaped_def)
  next
    case False
    with assms show ?thesis
      by (auto simp: alignment_source_def object_shaped_def put_object)
  qed
  have neq: "str ''refsToReview'' \<noteq> str ''topics''" by (simp add: str_def)
  have "norm_alignment p =
        bind (default_array_in False (with_prop p ?bl ?a) ?bl (str ''topics''))
          (\<lambda>p2. default_array_in False p2 ?bl (str ''refsToReview''))"
    unfolding norm_alignment_def using assms by (simp only: get_object bind_Inr step1)
  also have "\<dots> = Inr (with_prop p ?bl (alignment_result p))"
    using assms neq
    by (simp add: default_array_in_object opt_get_with_prop with_prop_twice alignment_result_def)
  finally show ?thesis .
qed

lemma clampNumber_minutes:
  "clampNumber t (Fin 5) (Fin 120) (Fin 15) = bind (to_number t) (\<lambda>x. Inr (clamp_minutes x))"
  by (cases "to_number t") (simp_all add: clampNumber_def clamp_minutes_def)

lemma norm_drill_object:
  assumes "is_object p"
  shows "norm_drill p =
         bind (to_number (drill_minutes p)) (\<lambda>x.
           Inr (with_prop p (str ''nextDrill'') (drill_result p x)))"
proof -
  let ?nd = "str ''nextDrill''"
  let ?d = "drill_source p"
  let ?pr = "opt_get ?d (str ''prompt'')"
  have step1: "(if \<not> truthy (opt_get p ?nd) \<or> typeof (opt_get p ?nd) \<noteq> str ''object''
                then put False p ?nd default_drill else Inr p) = Inr (with_prop p ?nd ?d)"
  proof (cases "object_shaped (opt_get p ?nd)")
    case True
    then have "is_object (opt_get p ?nd)" by (simp add: object_shaped_iff)
    then have "with_prop p ?nd (opt_get p ?nd) = p"
      by (intro with_prop_same) auto
    with True show ?thesis
      by (simp add: drill_source_def object_shaped_def)
  next
    case False
    with assms show ?thesis
      by (auto simp: drill_source_def object_shaped_def put_object)
  qed
  have step2: "(if typeof ?pr \<noteq> str ''string'' then put False ?d (str ''prompt'') (JStr [])
                else Inr ?d) = Inr (with_prop ?d (str ''prompt'') (string_or_empty ?pr))"
  proof (cases "\<exists>s. ?pr = JStr s")
    case True
    then obtain s where s: "?pr = JStr s" by blast
    then have "with_prop ?d (str ''prompt'') (JStr s) = ?d"
      by (intro with_prop_same) auto
    with s show ?thesis by (simp add: typeof_string string_or_empty_def)
  next
    case False
    then have "string_or_empty ?pr = JStr []"
      by (cases ?pr) (auto simp: string_or_empty_def)
    with False show ?thesis by (simp add: typeof_string put_object)
  qed
  have neq: "str ''timeboxMinutes'' \<noteq> str ''prompt''" by (simp add: str_def)
  let ?p1 = "with_prop p ?nd ?d"
  let ?d2 = "with_prop ?d (str ''prompt'') (string_or_empty ?pr)"
  have d1: "get ?p1 ?nd = Inr ?d"
    using assms by (simp add: get_object opt_get_with_prop)
  have t: "get ?d2 (str ''timeboxMinutes'') = Inr (drill_minutes p)"
    using neq by (simp add: get_object opt_get_with_prop drill_minutes_def)
  have "norm_drill p =
        bind (clampNumber (drill_minutes p) (Fin 5) (Fin 120) (Fin 15)) (\<lambda>c.
          bind (put False ?d2 (str ''timeboxMinutes'') (JNum c)) (\<lambda>d3. put False ?p1 ?nd d3))"
    unfolding norm_drill_def using assms
    by (simp only: get_object [of p] bind_Inr step1 d1 get_object [of ?d] is_object_drill_source
        step2 t)
  also have "\<dots> = bind (to_number (drill_minutes p)) (\<lambda>x.
           Inr (with_prop p ?nd (drill_result p x)))"
    using assms
    by (cases "to_number (drill_minutes p)")
       (simp_all add: clampNumber_minutes put_object with_prop_twice drill_result_def)
  finally show ?thesis .
qed


lemma is_object_with_arrays [simp]: "is_object (with_arrays p p1) = is_object p1"
  by (simp add: with_arrays_def)

lemma with_arrays_other:
  assumes "is_object p1"
    and "k \<noteq> str ''strengths''" and "k \<noteq> str ''missingPoints''"
    and "k \<noteq> str ''improvements''" and "k \<noteq> str ''suggestedOutline''"
  shows "opt_get (with_arrays p p1) k = opt_get p1 k"
  using assms by (simp add: with_arrays_def opt_get_with_prop)

lemma norm_arrays_after:
  assumes "is_object p1"
    and "opt_get p1 (str ''strengths'') = opt_get p (str ''strengths'')"
    and "opt_get p1 (str ''missingPoints'') = opt_get p (str ''missingPoints'')"
    and "opt_get p1 (str ''improvements'') = opt_get p (str ''improvements'')"
    and "opt_get p1 (str ''suggestedOutline'') = opt_get p (str ''suggestedOutline'')"
  shows "norm_arrays p1 = Inr (with_arrays p p1)"
  using assms by (simp add: norm_arrays_object with_arrays_def)

lemma alignment_source_cong:
  "opt_get p1 (str ''booklistAlignment'') = opt_get p (str ''booklistAlignment'')
   \<Longrightarrow> alignment_source p1 = alignment_source p"
  by (simp add: alignment_source_def)

lemma drill_source_cong:
  "opt_get p1 (str ''nextDrill'') = opt_get p (str ''nextDrill'')
   \<Longrightarrow> drill_source p1 = drill_source p"
  by (simp add: drill_source_def)

lemma normalize_server_object:
  assumes "is_object p"
  shows "normalize_server m p =
         bind (to_number (drill_minutes p)) (\<lambda>x. Inr (server_result m p x))"
proof -
  let ?p2 = "with_prop (with_prop p (str ''maxScore'') (JNum m))
             (str ''score'') (JNum (clamp_score m (finite_or_zero (opt_get p (str ''score'')))))"
  let ?p3 = "with_arrays p ?p2"
  let ?p4 = "with_prop ?p3 (str ''booklistAlignment'') (alignment_result p)"
  have o2: "is_object ?p2" using assms by simp
  have a: "norm_arrays ?p2 = Inr ?p3"
    using assms by (intro norm_arrays_after) (simp_all add: opt_get_with_prop str_def)
  have bl: "opt_get ?p3 (str ''booklistAlignment'') = opt_get p (str ''booklistAlignment'')"
    using assms by (subst with_arrays_other) (simp_all add: opt_get_with_prop str_def)
  have b: "norm_alignment ?p3 = Inr ?p4"
    using o2 by (simp add: norm_alignment_object alignment_result_def alignment_source_cong [OF bl])
  have nd: "opt_get ?p4 (str ''nextDrill'') = opt_get p (str ''nextDrill'')"
    using assms
    by (subst opt_get_with_prop, simp, subst with_arrays_other)
       (simp_all add: opt_get_with_prop str_def)
  have ds: "drill_source ?p4 = drill_source p" by (rule drill_source_cong [OF nd])
  have c: "norm_drill ?p4 =
           bind (to_number (drill_minutes p)) (\<lambda>x. Inr (server_result m p x))"
    using o2 by (simp add: norm_drill_object drill_result_def drill_minutes_def ds server_result_def)
  show ?thesis
    unfolding normalize_server_def
    by (simp only: norm_score_object [OF assms] bind_Inr a b c)
qed

lemma to_number_or_zero:
  "to_number (or_else (JNum n) (JNum (Fin 0))) = Inr (nonzero_or_zero n)"
  by (auto simp: or_else_def nonzero_or_zero_def)

lemma normalize_static_object:
  assumes "is_object p"
  shows "normalize_static m p =
         bind (to_number (opt_get p (str ''score''))) (\<lambda>n. Inr (static_result m p n))"
proof (cases "to_number (opt_get p (str ''score''))")
  case (Inl e)
  with assms show ?thesis
    by (simp add: normalize_static_def put_object get_object opt_get_with_prop str_def)
next
  case (Inr n)
  let ?p2 = "with_prop (with_prop p (str ''maxScore'') (JNum m))
             (str ''score'') (JNum (clamp_score m (nonzero_or_zero n)))"
  have s: "get (with_prop p (str ''maxScore'') (JNum m)) (str ''score'')
           = Inr (opt_get p (str ''score''))"
    using assms by (simp add: get_object opt_get_with_prop str_def)
  have "normalize_static m p =
        bind (default_array True ?p2 (str ''strengths'')) (\<lambda>p3.
        bind (default_array True p3 (str ''missingPoints'')) (\<lambda>p4.
        bind (default_array True p4 (str ''improvements'')) (\<lambda>p5.
          default_array True p5 (str ''suggestedOutline''))))"
    unfolding normalize_static_def using assms
    by (simp only: put_object bind_Inr s Inr to_number_or_zero is_object_with_prop clamp_score_def)
  also have "\<dots> = Inr (with_arrays p ?p2)"
    using assms
    by (simp add: default_array_object opt_get_with_prop with_arrays_def str_def)
  finally show ?thesis using Inr by (simp add: static_result_def)
qed

subsection \<open>The parser's fuel\<close>

text \<open>
  Every successful parse of a value consumes at least one code unit, so the recursion
  depth of the parser is bounded by the length of its input.  The fuel \<open>JSON_parse\<close>
  gives, \<open>2 * length s + 1\<close>, is therefore never used up, and any larger amount yields
  the same result: a \<open>SyntaxError\<close> of the model always comes from the grammar.
\<close>


lemma skip_ws_length: "length (skip_ws s) \<le> length s"
  by (simp add: skip_ws_def length_dropWhile_le)

lemma string_body_length: "string_body acc s = Some (t, r) \<Longrightarrow> length r < length s"
proof (induction acc s rule: string_body.induct)
  case (1 acc)
  then show ?case by simp
next
  case (2 acc c cs)
  show ?case
  proof (cases "c = 34")
    case True
    with 2(4) show ?thesis by simp
  next
    case n34: False
    show ?thesis
    proof (cases "c = 92")
      case True
      show ?thesis
      proof (cases cs)
        case Nil
        with 2(4) n34 True show ?thesis by simp
      next
        case (Cons e es)
        show ?thesis
        proof (cases "e = 117")
          case u: True
          then obtain uu where h: "hex4 (take 4 es) = Some uu"
            and b: "string_body (uu # acc) (drop 4 es) = Some (t, r)"
            using 2(4) n34 True Cons by (auto split: option.splits)
          from 2(1) [OF n34 True Cons u h b] have "length r < length (drop 4 es)" .
          with Cons show ?thesis by simp
        next
          case nu: False
          then obtain uu where h: "unescape e = Some uu"
            and b: "string_body (uu # acc) es = Some (t, r)"
            using 2(4) n34 True Cons by (auto split: option.splits)
          from 2(2) [OF n34 True Cons nu h b] have "length r < length es" .
          with Cons show ?thesis by simp
        qed
      qed
    next
      case n92: False
      show ?thesis
      proof (cases "c < 32")
        case True
        with 2(4) n34 n92 show ?thesis by simp
      next
        case False
        with 2(4) n34 n92 have b: "string_body (c # acc) cs = Some (t, r)" by simp
        from 2(3) [OF n34 n92 False b] show ?thesis by simp
      qed
    qed
  qed
qed


lemma number_int_Nil: "number_int [] = []"
  by (simp add: number_int_def)

lemma scan_number_length: "scan_number s = Some (tok, r) \<Longrightarrow> length r < length s"
proof -
  assume a: "scan_number s = Some (tok, r)"
  let ?s1 = "drop (length (number_sign s)) s"
  let ?ip = "number_int ?s1"
  from a have ne: "?ip \<noteq> []"
    by (auto simp: scan_number_def Let_def split: if_splits)
  then have s1: "?s1 \<noteq> []" using number_int_Nil by metis
  from a ne have "length r \<le> length ?s1 - length ?ip"
    by (auto simp: scan_number_def Let_def)
  moreover from ne have "0 < length ?ip" by simp
  moreover from s1 have "0 < length ?s1" by simp
  moreover have "length ?s1 \<le> length s" by simp
  ultimately show ?thesis by linarith
qed

lemma skip_ws_Cons: "skip_ws s = c # cs \<Longrightarrow> length cs < length s"
  using skip_ws_length [of s] by simp

lemma jvalue_consumes:
  "(\<forall>s v r. jvalue n s = Ok v r \<longrightarrow> length r < length s)
   \<and> (\<forall>acc s v r. jelems n acc s = Ok v r \<longrightarrow> length r < length s)
   \<and> (\<forall>acc s v r. jmembers n acc s = Ok v r \<longrightarrow> length r < length s)"
proof (induction n)
  case 0
  show ?case by simp
next
  case (Suc n)
  then have ihv: "\<And>s v r. jvalue n s = Ok v r \<Longrightarrow> length r < length s"
    and ihe: "\<And>acc s v r. jelems n acc s = Ok v r \<Longrightarrow> length r < length s"
    and ihm: "\<And>acc s v r. jmembers n acc s = Ok v r \<Longrightarrow> length r < length s"
    by blast+
  have v: "length r < length s" if a: "jvalue (Suc n) s = Ok v r" for s v r
  proof (cases "skip_ws s")
    case Nil
    with a show ?thesis by simp
  next
    case (Cons c cs)
    note sk = skip_ws_Cons [OF Cons]
    consider (obj) "c = 123" | (arr) "c \<noteq> 123" "c = 91" | (string) "c \<noteq> 123" "c \<noteq> 91" "c = 34"
      | (other) "c \<noteq> 123" "c \<noteq> 91" "c \<noteq> 34" by blast
    then show ?thesis
    proof cases
      case obj
      show ?thesis
      proof (cases "skip_ws cs")
        case Nil
        with a Cons obj show ?thesis by simp
      next
        case inner: (Cons d ds)
        note sk2 = skip_ws_Cons [OF inner]
        show ?thesis
        proof (cases "d = 125")
          case True
          with a Cons obj inner have "r = ds" by simp
          with sk sk2 show ?thesis by simp
        next
          case False
          with a Cons obj inner have "jmembers n [] (d # ds) = Ok v r" by simp
          from ihm [OF this] sk sk2 show ?thesis by simp
        qed
      qed
    next
      case arr
      show ?thesis
      proof (cases "skip_ws cs")
        case Nil
        with a Cons arr show ?thesis by simp
      next
        case inner: (Cons d ds)
        note sk2 = skip_ws_Cons [OF inner]
        show ?thesis
        proof (cases "d = 93")
          case True
          with a Cons arr inner have "r = ds" by simp
          with sk sk2 show ?thesis by simp
        next
          case False
          with a Cons arr inner have "jelems n [] (d # ds) = Ok v r" by simp
          from ihe [OF this] sk sk2 show ?thesis by simp
        qed
      qed
    next
      case string
      with a Cons obtain t where "string_body [] cs = Some (t, r)"
        by (auto split: option.splits)
      from string_body_length [OF this] sk show ?thesis by simp
    next
      case other
      have lit: "length (drop k (c # cs)) < length s" if "0 < k" for k
        using that sk by (cases k) simp_all
      from a Cons other
      consider "r = drop 4 (c # cs)" | "r = drop 5 (c # cs)"
        | tok where "scan_number (c # cs) = Some (tok, r)"
        by (auto split: if_splits option.splits)
      then show ?thesis
      proof cases
        case 1
        with lit [of 4] show ?thesis by simp
      next
        case 2
        with lit [of 5] show ?thesis by simp
      next
        case 3
        from scan_number_length [OF this] sk show ?thesis by simp
      qed
    qed
  qed
  have e: "length r < length s" if a: "jelems (Suc n) acc s = Ok v r" for acc s v r
  proof -
    from a obtain w r1 where w: "jvalue n s = Ok w r1"
      by (auto split: pres.splits)
    note l1 = ihv [OF w]
    from a w obtain c cs where sk: "skip_ws r1 = c # cs"
      by (auto split: list.splits)
    note l2 = skip_ws_Cons [OF sk]
    from a w sk consider "jelems n (acc @ [w]) cs = Ok v r" | "r = cs"
      by (auto split: if_splits)
    then show ?thesis
    proof cases
      case 1
      from ihe [OF this] l1 l2 show ?thesis by simp
    next
      case 2
      with l1 l2 show ?thesis by simp
    qed
  qed
  have m: "length r < length s" if a: "jmembers (Suc n) acc s = Ok v r" for acc s v r
  proof -
    from a obtain c cs where sk: "skip_ws s = c # cs"
      by (auto split: list.splits)
    note l1 = skip_ws_Cons [OF sk]
    from a sk obtain k r1 where sb: "string_body [] cs = Some (k, r1)"
      by (auto split: if_splits option.splits)
    note l2 = string_body_length [OF sb]
    from a sk sb obtain d ds where sk2: "skip_ws r1 = d # ds"
      by (auto split: if_splits list.splits)
    note l3 = skip_ws_Cons [OF sk2]
    from a sk sb sk2 obtain w r2 where w: "jvalue n ds = Ok w r2"
      by (auto split: if_splits pres.splits)
    note l4 = ihv [OF w]
    from a sk sb sk2 w obtain x xs where sk3: "skip_ws r2 = x # xs"
      by (auto split: if_splits list.splits)
    note l5 = skip_ws_Cons [OF sk3]
    from a sk sb sk2 w sk3 consider "jmembers n (upd k w acc) xs = Ok v r" | "r = xs"
      by (auto split: if_splits)
    then show ?thesis
    proof cases
      case 1
      from ihm [OF this] l1 l2 l3 l4 l5 show ?thesis by simp
    next
      case 2
      with l1 l2 l3 l4 l5 show ?thesis by simp
    qed
  qed
  from v e m show ?case by blast
qed


lemmas jvalue_shorter = jvalue_consumes [THEN conjunct1, rule_format]

lemma jvalue_fuel:
  "(\<forall>s. 2 * length s < n \<longrightarrow> jvalue n s \<noteq> OutOfFuel)
   \<and> (\<forall>acc s. 2 * length s + 1 < n \<longrightarrow> jelems n acc s \<noteq> OutOfFuel)
   \<and> (\<forall>acc s. 2 * length s + 1 < n \<longrightarrow> jmembers n acc s \<noteq> OutOfFuel)"
proof (induction n)
  case 0
  show ?case by simp
next
  case (Suc n)
  then have ihv: "\<And>s. 2 * length s < n \<Longrightarrow> jvalue n s \<noteq> OutOfFuel"
    and ihe: "\<And>acc s. 2 * length s + 1 < n \<Longrightarrow> jelems n acc s \<noteq> OutOfFuel"
    and ihm: "\<And>acc s. 2 * length s + 1 < n \<Longrightarrow> jmembers n acc s \<noteq> OutOfFuel"
    by blast+
  have v: "jvalue (Suc n) s \<noteq> OutOfFuel" if f: "2 * length s < Suc n" for s
  proof (cases "skip_ws s")
    case Nil
    then show ?thesis by simp
  next
    case (Cons c cs)
    note sk = skip_ws_Cons [OF Cons]
    show ?thesis
    proof (cases "skip_ws cs")
      case Nil
      with Cons show ?thesis by (auto split: option.splits)
    next
      case inner: (Cons d ds)
      note sk2 = skip_ws_Cons [OF inner]
      from f sk sk2 have "2 * length (d # ds) + 1 < n" by simp
      then have "jmembers n [] (d # ds) \<noteq> OutOfFuel" "jelems n [] (d # ds) \<noteq> OutOfFuel"
        using ihm ihe by blast+
      with Cons inner show ?thesis by (auto split: option.splits)
    qed
  qed
  have e: "jelems (Suc n) acc s \<noteq> OutOfFuel" if f: "2 * length s + 1 < Suc n" for acc s
  proof (cases "jvalue n s")
    case OutOfFuel
    moreover from f have "2 * length s < n" by simp
    ultimately show ?thesis using ihv by blast
  next
    case Bad
    then show ?thesis by simp
  next
    case (Ok w r1)
    note l1 = jvalue_shorter [OF Ok]
    show ?thesis
    proof (cases "skip_ws r1")
      case Nil
      with Ok show ?thesis by simp
    next
      case (Cons c cs)
      note l2 = skip_ws_Cons [OF Cons]
      from f l1 l2 have "2 * length cs + 1 < n" by simp
      then have "jelems n (acc @ [w]) cs \<noteq> OutOfFuel" using ihe by blast
      with Ok Cons show ?thesis by simp
    qed
  qed
  have m: "jmembers (Suc n) acc s \<noteq> OutOfFuel" if f: "2 * length s + 1 < Suc n" for acc s
  proof (cases "skip_ws s")
    case Nil
    then show ?thesis by simp
  next
    case (Cons c cs)
    note l1 = skip_ws_Cons [OF Cons]
    show ?thesis
    proof (cases "string_body [] cs")
      case None
      with Cons show ?thesis by simp
    next
      case (Some kr)
      then obtain k r1 where sb: "string_body [] cs = Some (k, r1)" by (cases kr) simp
      note l2 = string_body_length [OF sb]
      show ?thesis
      proof (cases "skip_ws r1")
        case Nil
        with Cons sb show ?thesis by simp
      next
        case inner: (Cons d ds)
        note l3 = skip_ws_Cons [OF inner]
        show ?thesis
        proof (cases "jvalue n ds")
          case OutOfFuel
          moreover from f l1 l2 l3 have "2 * length ds < n" by simp
          ultimately show ?thesis using ihv by blast
        next
          case Bad
          with Cons sb inner show ?thesis by simp
        next
          case (Ok w r2)
          note l4 = jvalue_shorter [OF Ok]
          show ?thesis
          proof (cases "skip_ws r2")
            case Nil
            with Cons sb inner Ok show ?thesis by simp
          next
            case last: (Cons x xs)
            note l5 = skip_ws_Cons [OF last]
            from f l1 l2 l3 l4 l5 have "2 * length xs + 1 < n" by simp
            then have "jmembers n (upd k w acc) xs \<noteq> OutOfFuel" using ihm by blast
            with Cons sb inner Ok last show ?thesis by simp
          qed
        qed
      qed
    qed
  qed
  from v e m show ?case by blast
qed

lemma JSON_parse_fuel: "jvalue (2 * length s + 1) s \<noteq> OutOfFuel"
  using jvalue_fuel [of "2 * length s + 1"] by simp


lemma jvalue_more_fuel:
  "(\<forall>s. jvalue n s \<noteq> OutOfFuel \<longrightarrow> jvalue (Suc n) s = jvalue n s)
   \<and> (\<forall>acc s. jelems n acc s \<noteq> OutOfFuel \<longrightarrow> jelems (Suc n) acc s = jelems n acc s)
   \<and> (\<forall>acc s. jmembers n acc s \<noteq> OutOfFuel \<longrightarrow> jmembers (Suc n) acc s = jmembers n acc s)"
proof (induction n)
  case 0
  show ?case by simp
next
  case (Suc n)
  then have ihv: "\<And>s. jvalue n s \<noteq> OutOfFuel \<Longrightarrow> jvalue (Suc n) s = jvalue n s"
    and ihe: "\<And>acc s. jelems n acc s \<noteq> OutOfFuel \<Longrightarrow> jelems (Suc n) acc s = jelems n acc s"
    and ihm: "\<And>acc s. jmembers n acc s \<noteq> OutOfFuel \<Longrightarrow> jmembers (Suc n) acc s = jmembers n acc s"
    by blast+
  have v: "jvalue (Suc (Suc n)) s = jvalue (Suc n) s" if f: "jvalue (Suc n) s \<noteq> OutOfFuel" for s
  proof (cases "skip_ws s")
    case Nil
    then show ?thesis by simp
  next
    case (Cons c cs)
    show ?thesis
    proof (cases "skip_ws cs")
      case Nil
      with Cons show ?thesis by simp
    next
      case inner: (Cons d ds)
      have "jmembers (Suc n) [] (d # ds) = jmembers n [] (d # ds)"
        if "c = 123" "d \<noteq> 125"
        using that f Cons inner by (intro ihm) auto
      moreover have "jelems (Suc n) [] (d # ds) = jelems n [] (d # ds)"
        if "c \<noteq> 123" "c = 91" "d \<noteq> 93"
        using that f Cons inner by (intro ihe) auto
      ultimately show ?thesis using Cons inner
        by (auto simp del: jelems.simps(2) jmembers.simps(2))
    qed
  qed
  have e: "jelems (Suc (Suc n)) acc s = jelems (Suc n) acc s"
    if f: "jelems (Suc n) acc s \<noteq> OutOfFuel" for acc s
  proof (cases "jvalue n s")
    case OutOfFuel
    with f show ?thesis by simp
  next
    case Bad
    with ihv [of s] show ?thesis by (simp del: jvalue.simps(2))
  next
    case (Ok w r1)
    with ihv [of s] have up: "jvalue (Suc n) s = Ok w r1" by simp
    show ?thesis
    proof (cases "skip_ws r1")
      case Nil
      with Ok up show ?thesis by (simp del: jvalue.simps(2))
    next
      case (Cons c cs)
      have "jelems (Suc n) (acc @ [w]) cs = jelems n (acc @ [w]) cs" if "c = 44"
        using that f Ok Cons by (intro ihe) auto
      with Ok up Cons show ?thesis by (simp del: jvalue.simps(2))
    qed
  qed
  have m: "jmembers (Suc (Suc n)) acc s = jmembers (Suc n) acc s"
    if f: "jmembers (Suc n) acc s \<noteq> OutOfFuel" for acc s
  proof (cases "skip_ws s")
    case Nil
    then show ?thesis by simp
  next
    case (Cons c cs)
    show ?thesis
    proof (cases "string_body [] cs")
      case None
      with Cons show ?thesis by simp
    next
      case (Some kr)
      then obtain k r1 where sb: "string_body [] cs = Some (k, r1)" by (cases kr) simp
      show ?thesis
      proof (cases "skip_ws r1")
        case Nil
        with Cons sb show ?thesis by simp
      next
        case inner: (Cons d ds)
        show ?thesis
        proof (cases "c = 34 \<and> d = 58")
          case False
          with Cons sb inner show ?thesis by auto
        next
          case True
          show ?thesis
          proof (cases "jvalue n ds")
            case OutOfFuel
            with f Cons sb inner True show ?thesis by simp
          next
            case Bad
            with ihv [of ds] Cons sb inner show ?thesis by (simp del: jvalue.simps(2))
          next
            case (Ok w r2)
            with ihv [of ds] have up: "jvalue (Suc n) ds = Ok w r2" by simp
            show ?thesis
            proof (cases "skip_ws r2")
              case Nil
              with Cons sb inner Ok up show ?thesis by (simp del: jvalue.simps(2))
            next
              case last: (Cons x xs)
              have "jmembers (Suc n) (upd k w acc) xs = jmembers n (upd k w acc) xs" if "x = 44"
                using that f Cons sb inner True Ok last by (intro ihm) auto
              with Cons sb inner Ok up last show ?thesis by (simp del: jvalue.simps(2))
            qed
          qed
        qed
      qed
    qed
  qed
  from v e m show ?case by blast
qed

lemma jvalue_fuel_irrelevant:
  "jvalue (2 * length s + 1 + k) s = jvalue (2 * length s + 1) s"
proof (induction k)
  case 0
  show ?case by simp
next
  case (Suc k)
  have "jvalue (2 * length s + 1 + k) s \<noteq> OutOfFuel"
    using Suc JSON_parse_fuel [of s] by simp
  then have "jvalue (Suc (2 * length s + 1 + k)) s = jvalue (2 * length s + 1 + k) s"
    using jvalue_more_fuel [of "2 * length s + 1 + k"] by blast
  with Suc show ?case by simp
qed

subsection \<open>The result normalizer\<close>


lemma clamp_score_range:
  assumes "num_le (Fin 0) m" and "n \<noteq> NaN"
  shows "num_le (Fin 0) (clamp_score m n) \<and> num_le (clamp_score m n) m"
  using assms
  by (cases m; cases n) (auto simp: clamp_score_def Math_min_def Math_max_def)

lemma finite_or_zero_not_NaN [simp]: "finite_or_zero v \<noteq> NaN"
  by (cases v) (auto simp: finite_or_zero_def isFinite_iff)

lemma nonzero_or_zero_not_NaN [simp]: "nonzero_or_zero n \<noteq> NaN"
  by (simp add: nonzero_or_zero_def)

lemma server_result_scores:
  assumes "is_object p"
  shows "opt_get (server_result m p x) (str ''maxScore'') = JNum m"
    and "opt_get (server_result m p x) (str ''score'')
         = JNum (clamp_score m (finite_or_zero (opt_get p (str ''score''))))"
  using assms
  by (simp_all add: server_result_def opt_get_with_prop with_arrays_other str_def)

lemma static_result_scores:
  assumes "is_object p"
  shows "opt_get (static_result m p n) (str ''maxScore'') = JNum m"
    and "opt_get (static_result m p n) (str ''score'') = JNum (clamp_score m (nonzero_or_zero n))"
  using assms
  by (simp_all add: static_result_def opt_get_with_prop with_arrays_other str_def)

text \<open>
  Claim C1, as the code has it. For every parsed value \<open>p\<close> that is an object or an array
  and every non-negative \<open>maxScore\<close>: the normalizer of \<^verbatim>\<open>server.js\<close> returns unless the
  conversion of \<^verbatim>\<open>nextDrill.timeboxMinutes\<close> throws, and the normalizer of \<^verbatim>\<open>grader.js\<close>
  returns unless the conversion of \<^verbatim>\<open>score\<close> throws. In the result \<^verbatim>\<open>maxScore\<close> is the
  question's, whatever the model gave, and \<^verbatim>\<open>score\<close> lies between zero and \<^verbatim>\<open>maxScore\<close>.
  In \<^verbatim>\<open>server.js\<close> the score is the model's score clamped when that is a finite number,
  and zero for every other value: nothing is coerced. In \<^verbatim>\<open>grader.js\<close> it is
  \<^verbatim>\<open>Number(score) || 0\<close> clamped, so that an infinite score becomes \<^verbatim>\<open>maxScore\<close>.
\<close>

theorem score_clamped_maxScore_overwritten:
  assumes "is_object p" and "num_le (Fin 0) m"
  shows "(case normalize_server m p of
            Inl e \<Rightarrow> to_number (drill_minutes p) = Inl e
          | Inr r \<Rightarrow>
              opt_get r (str ''maxScore'') = JNum m
              \<and> opt_get r (str ''score'')
                  = JNum (clamp_score m (finite_or_zero (opt_get p (str ''score''))))
              \<and> num_le (Fin 0) (clamp_score m (finite_or_zero (opt_get p (str ''score''))))
              \<and> num_le (clamp_score m (finite_or_zero (opt_get p (str ''score'')))) m)
       \<and> (case normalize_static m p of
            Inl e \<Rightarrow> to_number (opt_get p (str ''score'')) = Inl e
          | Inr r \<Rightarrow>
              (\<exists>n. to_number (opt_get p (str ''score'')) = Inr n
                 \<and> opt_get r (str ''maxScore'') = JNum m
                 \<and> opt_get r (str ''score'') = JNum (clamp_score m (nonzero_or_zero n))
                 \<and> num_le (Fin 0) (clamp_score m (nonzero_or_zero n))
                 \<and> num_le (clamp_score m (nonzero_or_zero n)) m))"
proof
  show "case normalize_server m p of
            Inl e \<Rightarrow> to_number (drill_minutes p) = Inl e
          | Inr r \<Rightarrow>
              opt_get r (str ''maxScore'') = JNum m
              \<and> opt_get r (str ''score'')
                  = JNum (clamp_score m (finite_or_zero (opt_get p (str ''score''))))
              \<and> num_le (Fin 0) (clamp_score m (finite_or_zero (opt_get p (str ''score''))))
              \<and> num_le (clamp_score m (finite_or_zero (opt_get p (str ''score'')))) m"
    using assms clamp_score_range [OF assms(2), of "finite_or_zero (opt_get p (str ''score''))"]
    by (cases "to_number (drill_minutes p)")
       (simp_all add: normalize_server_object server_result_scores)
next
  show "case normalize_static m p of
            Inl e \<Rightarrow> to_number (opt_get p (str ''score'')) = Inl e
          | Inr r \<Rightarrow>
              (\<exists>n. to_number (opt_get p (str ''score'')) = Inr n
                 \<and> opt_get r (str ''maxScore'') = JNum m
                 \<and> opt_get r (str ''score'') = JNum (clamp_score m (nonzero_or_zero n))
                 \<and> num_le (Fin 0) (clamp_score m (nonzero_or_zero n))
                 \<and> num_le (clamp_score m (nonzero_or_zero n)) m)"
  proof (cases "to_number (opt_get p (str ''score''))")
    case (Inl e)
    with assms show ?thesis by (simp add: normalize_static_object)
  next
    case (Inr n)
    with assms clamp_score_range [OF assms(2), of "nonzero_or_zero n"] show ?thesis
      by (simp add: normalize_static_object static_result_scores)
  qed
qed

text \<open>An instance: the score 25 of a question of 20 points becomes 20 in both files.\<close>

theorem score_clamped_maxScore_overwritten_witness:
  "is_object (JObj [(str ''score'', JNum (Fin 25))]) \<and> num_le (Fin 0) (Fin 20)
   \<and> bind (normalize_server (Fin 20) (JObj [(str ''score'', JNum (Fin 25))]))
        (\<lambda>r. Inr (opt_get r (str ''maxScore''), opt_get r (str ''score'')))
       = Inr (JNum (Fin 20), JNum (Fin 20))
   \<and> bind (normalize_static (Fin 20) (JObj [(str ''score'', JNum (Fin 25))]))
        (\<lambda>r. Inr (opt_get r (str ''maxScore''), opt_get r (str ''score'')))
       = Inr (JNum (Fin 20), JNum (Fin 20))"
proof -
  let ?p = "JObj [(str ''score'', JNum (Fin 25))]"
  have h1: "is_object ?p" by simp
  have h2: "num_le (Fin 0) (Fin 20)" by simp
  have d: "to_number (drill_minutes ?p) = Inr (Fin 10)" by code_simp
  have c: "clamp_score (Fin 20) (finite_or_zero (opt_get ?p (str ''score''))) = Fin 20"
    by code_simp
  have n: "to_number (opt_get ?p (str ''score'')) = Inr (Fin 25)" by code_simp
  have c': "clamp_score (Fin 20) (nonzero_or_zero (Fin 25)) = Fin 20" by code_simp
  from score_clamped_maxScore_overwritten [OF h1 h2] d c n c' h1 h2 show ?thesis
    by (auto simp: bind_def split: sum.splits)
qed

text \<open>
  Claim C1 as stated fails: the string \<^verbatim>\<open>"15"\<close> coerces to the number 15, which is within
  \<open>[0, 20]\<close>, and \<^verbatim>\<open>server.js\<close> returns the score 0; the score \<^verbatim>\<open>Infinity\<close> (from the JSON
  text \<^verbatim>\<open>1e999\<close>) is not finite, and \<^verbatim>\<open>grader.js\<close> returns 20 instead of 0.
\<close>

theorem score_coercion_counterexample:
  "to_number (JStr (str ''15'')) = Inr (Fin 15)
   \<and> clamp_score (Fin 20) (Fin 15) = Fin 15
   \<and> bind (normalize_server (Fin 20) (JObj [(str ''score'', JStr (str ''15''))]))
        (\<lambda>r. get r (str ''score'')) = Inr (JNum (Fin 0))
   \<and> bind (normalize_static (Fin 20) (JObj [(str ''score'', JNum PInf)]))
        (\<lambda>r. get r (str ''score'')) = Inr (JNum (Fin 20))"
  by code_simp


lemma isArray_arr_or_empty [simp]: "isArray (arr_or_empty v)"
  by (simp add: arr_or_empty_def)

lemma with_arrays_field:
  assumes "is_object p1" and "k \<in> set array_fields"
  shows "opt_get (with_arrays p p1) k = arr_or_empty (opt_get p k)"
  using assms by (auto simp: with_arrays_def array_fields_def opt_get_with_prop str_def)

lemma array_fields_other:
  "str ''booklistAlignment'' \<notin> set array_fields" "str ''nextDrill'' \<notin> set array_fields"
  "str ''rationale'' \<notin> set array_fields" "str ''score'' \<notin> set array_fields"
  "str ''maxScore'' \<notin> set array_fields"
  by (simp_all add: array_fields_def str_def)

lemma server_result_array:
  assumes "is_object p" and "k \<in> set array_fields"
  shows "opt_get (server_result m p x) k = arr_or_empty (opt_get p k)"
proof -
  from assms(2) have "k \<noteq> str ''booklistAlignment''" "k \<noteq> str ''nextDrill''"
    using array_fields_other by auto
  with assms show ?thesis
    by (simp add: server_result_def opt_get_with_prop with_arrays_field)
qed

lemma static_result_array:
  assumes "is_object p" and "k \<in> set array_fields"
  shows "opt_get (static_result m p n) k = arr_or_empty (opt_get p k)"
  using assms by (simp add: static_result_def with_arrays_field)

lemma server_result_alignment:
  assumes "is_object p"
  shows "opt_get (server_result m p x) (str ''booklistAlignment'') = alignment_result p"
  using assms by (simp add: server_result_def opt_get_with_prop str_def)

lemma server_result_drill:
  assumes "is_object p"
  shows "opt_get (server_result m p x) (str ''nextDrill'') = drill_result p x"
  using assms by (simp add: server_result_def opt_get_with_prop)

lemma opt_get_not_object: "\<not> is_object v \<Longrightarrow> opt_get v k = JUndefined"
  by (cases v) simp_all

lemma alignment_source_field:
  "k = str ''topics'' \<or> k = str ''refsToReview''
   \<Longrightarrow> arr_or_empty (opt_get (alignment_source p) k)
       = arr_or_empty (opt_get (opt_get p (str ''booklistAlignment'')) k)"
  by (auto simp: alignment_source_def Let_def object_shaped_iff opt_get_not_object
      empty_alignment_def arr_or_empty_def own_def str_def)

lemma alignment_result_fields:
  "opt_get (alignment_result p) (str ''topics'')
     = arr_or_empty (opt_get (opt_get p (str ''booklistAlignment'')) (str ''topics''))"
  "opt_get (alignment_result p) (str ''refsToReview'')
     = arr_or_empty (opt_get (opt_get p (str ''booklistAlignment'')) (str ''refsToReview''))"
proof -
  have neq: "str ''topics'' \<noteq> str ''refsToReview''" by (simp add: str_def)
  show "opt_get (alignment_result p) (str ''topics'')
     = arr_or_empty (opt_get (opt_get p (str ''booklistAlignment'')) (str ''topics''))"
    using neq by (simp add: alignment_result_def opt_get_with_prop alignment_source_field)
  show "opt_get (alignment_result p) (str ''refsToReview'')
     = arr_or_empty (opt_get (opt_get p (str ''booklistAlignment'')) (str ''refsToReview''))"
    by (simp add: alignment_result_def opt_get_with_prop alignment_source_field)
qed

lemma static_result_other:
  assumes "is_object p" and "k \<notin> set array_fields"
    and "k \<noteq> str ''score''" and "k \<noteq> str ''maxScore''"
  shows "opt_get (static_result m p n) k = opt_get p k"
  using assms
  by (simp add: static_result_def with_arrays_other array_fields_def opt_get_with_prop)

lemma static_result_kept:
  assumes "is_object p"
  shows "opt_get (static_result m p n) (str ''rationale'') = opt_get p (str ''rationale'')"
    and "opt_get (static_result m p n) (str ''booklistAlignment'')
         = opt_get p (str ''booklistAlignment'')"
    and "opt_get (static_result m p n) (str ''nextDrill'') = opt_get p (str ''nextDrill'')"
  using assms by (simp_all add: static_result_other array_fields_def str_def)

text \<open>
  Claim C2, as the code has it. For every parsed value that is an object or an array, in
  the result of \<^verbatim>\<open>server.js\<close> each of \<^verbatim>\<open>strengths\<close>, \<^verbatim>\<open>missingPoints\<close>,
  \<^verbatim>\<open>improvements\<close>, \<^verbatim>\<open>suggestedOutline\<close> and the two fields of \<^verbatim>\<open>booklistAlignment\<close> is
  an array: the model's array as it came, its elements neither checked nor converted,
  and the empty array when the model's value is missing or not an array (a scalar is not
  wrapped). \<^verbatim>\<open>grader.js\<close> does the same for the four top-level fields and leaves
  \<^verbatim>\<open>booklistAlignment\<close> as the model gave it.
\<close>

theorem array_fields_defaulted:
  assumes "is_object p"
  shows "(case normalize_server m p of
            Inl e \<Rightarrow> to_number (drill_minutes p) = Inl e
          | Inr r \<Rightarrow>
              (\<forall>k \<in> set array_fields.
                 opt_get r k = arr_or_empty (opt_get p k) \<and> isArray (opt_get r k))
              \<and> (\<forall>k \<in> {str ''topics'', str ''refsToReview''}.
                   opt_get (opt_get r (str ''booklistAlignment'')) k
                     = arr_or_empty (opt_get (opt_get p (str ''booklistAlignment'')) k)
                   \<and> isArray (opt_get (opt_get r (str ''booklistAlignment'')) k)))
       \<and> (case normalize_static m p of
            Inl e \<Rightarrow> to_number (opt_get p (str ''score'')) = Inl e
          | Inr r \<Rightarrow>
              (\<forall>k \<in> set array_fields.
                 opt_get r k = arr_or_empty (opt_get p k) \<and> isArray (opt_get r k))
              \<and> opt_get r (str ''booklistAlignment'') = opt_get p (str ''booklistAlignment''))"
proof
  show "case normalize_server m p of
            Inl e \<Rightarrow> to_number (drill_minutes p) = Inl e
          | Inr r \<Rightarrow>
              (\<forall>k \<in> set array_fields.
                 opt_get r k = arr_or_empty (opt_get p k) \<and> isArray (opt_get r k))
              \<and> (\<forall>k \<in> {str ''topics'', str ''refsToReview''}.
                   opt_get (opt_get r (str ''booklistAlignment'')) k
                     = arr_or_empty (opt_get (opt_get p (str ''booklistAlignment'')) k)
                   \<and> isArray (opt_get (opt_get r (str ''booklistAlignment'')) k))"
    using assms
    by (cases "to_number (drill_minutes p)")
       (simp_all add: normalize_server_object server_result_array server_result_alignment
          alignment_result_fields)
next
  show "case normalize_static m p of
            Inl e \<Rightarrow> to_number (opt_get p (str ''score'')) = Inl e
          | Inr r \<Rightarrow>
              (\<forall>k \<in> set array_fields.
                 opt_get r k = arr_or_empty (opt_get p k) \<and> isArray (opt_get r k))
              \<and> opt_get r (str ''booklistAlignment'') = opt_get p (str ''booklistAlignment'')"
    using assms
    by (cases "to_number (opt_get p (str ''score''))")
       (simp_all add: normalize_static_object static_result_array static_result_kept)
qed


text \<open>
  An instance: a string under \<^verbatim>\<open>strengths\<close> is replaced by the empty array, an array under
  \<^verbatim>\<open>missingPoints\<close> is kept, the missing \<^verbatim>\<open>booklistAlignment.topics\<close> is the empty array.
\<close>

theorem array_fields_defaulted_witness:
  "is_object (JObj [(str ''strengths'', JStr (str ''good'')),
                    (str ''missingPoints'', JArr [JStr (str ''x'')] [])])
   \<and> bind (normalize_server (Fin 20)
             (JObj [(str ''strengths'', JStr (str ''good'')),
                    (str ''missingPoints'', JArr [JStr (str ''x'')] [])]))
        (\<lambda>r. Inr (opt_get r (str ''strengths''), opt_get r (str ''missingPoints''),
                   opt_get (opt_get r (str ''booklistAlignment'')) (str ''topics'')))
       = Inr (JArr [] [], JArr [JStr (str ''x'')] [], JArr [] [])"
proof -
  let ?p = "JObj [(str ''strengths'', JStr (str ''good'')),
                  (str ''missingPoints'', JArr [JStr (str ''x'')] [])]"
  have h: "is_object ?p" by simp
  have d: "to_number (drill_minutes ?p) = Inr (Fin 10)" by code_simp
  have k: "str ''strengths'' \<in> set array_fields" "str ''missingPoints'' \<in> set array_fields"
    by (simp_all add: array_fields_def)
  have v: "arr_or_empty (opt_get ?p (str ''strengths'')) = JArr [] []"
    "arr_or_empty (opt_get ?p (str ''missingPoints'')) = JArr [JStr (str ''x'')] []"
    "arr_or_empty (opt_get (opt_get ?p (str ''booklistAlignment'')) (str ''topics'')) = JArr [] []"
    by code_simp+
  from array_fields_defaulted [OF h, of "Fin 20"] d k v h show ?thesis
    by (auto simp: bind_def split: sum.splits)
qed

text \<open>
  Claim C2 as stated fails: the array \<^verbatim>\<open>[1]\<close> under \<^verbatim>\<open>strengths\<close> is returned as it is,
  and it is no sequence of strings; in \<^verbatim>\<open>grader.js\<close> a string under
  \<^verbatim>\<open>booklistAlignment\<close> stays a string.
\<close>

theorem array_elements_unchecked_counterexample:
  "bind (normalize_server (Fin 20) (JObj [(str ''strengths'', JArr [JNum (Fin 1)] [])]))
     (\<lambda>r. get r (str ''strengths'')) = Inr (JArr [JNum (Fin 1)] [])
   \<and> bind (normalize_static (Fin 20) (JObj [(str ''booklistAlignment'', JStr (str ''x''))]))
       (\<lambda>r. get r (str ''booklistAlignment'')) = Inr (JStr (str ''x''))"
  by code_simp

lemma clamp_minutes_range: "\<exists>q. clamp_minutes x = Fin q \<and> 5 \<le> q \<and> q \<le> 120"
  by (cases x) (auto simp: clamp_minutes_def Math_min_def Math_max_def)

lemma is_object_alignment_result [simp]: "is_object (alignment_result p)"
  by (simp add: alignment_result_def)

lemma is_object_drill_result [simp]: "is_object (drill_result p x)"
  by (simp add: drill_result_def)

lemma drill_result_fields:
  "opt_get (drill_result p x) (str ''prompt'')
     = string_or_empty (opt_get (drill_source p) (str ''prompt''))"
  "opt_get (drill_result p x) (str ''timeboxMinutes'') = JNum (clamp_minutes x)"
  by (simp_all add: drill_result_def opt_get_with_prop str_def)

lemma string_or_empty_string: "\<exists>s. string_or_empty v = JStr s"
  by (cases v) (simp_all add: string_or_empty_def)

lemma server_result_rationale:
  assumes "is_object p"
  shows "opt_get (server_result m p x) (str ''rationale'') = opt_get p (str ''rationale'')"
  using assms
  by (simp add: server_result_def opt_get_with_prop with_arrays_other str_def)

lemma is_object_server_result [simp]: "is_object (server_result m p x) = is_object p"
  by (simp add: server_result_def)

lemma is_object_static_result [simp]: "is_object (static_result m p n) = is_object p"
  by (simp add: static_result_def)

text \<open>
  Claim C3, as the code has it. For every parsed value \<open>p\<close> that is an object or an array,
  the normalizer of \<^verbatim>\<open>server.js\<close> throws only what the conversion of
  \<^verbatim>\<open>nextDrill.timeboxMinutes\<close> to a number throws, and otherwise returns an object with a
  number under \<^verbatim>\<open>score\<close>, the question's \<^verbatim>\<open>maxScore\<close>, arrays under the four array
  fields, an object with two arrays under \<^verbatim>\<open>booklistAlignment\<close>, an object with a string
  \<^verbatim>\<open>prompt\<close> and a \<^verbatim>\<open>timeboxMinutes\<close> in \<open>[5, 120]\<close> under \<^verbatim>\<open>nextDrill\<close>; \<^verbatim>\<open>rationale\<close> is
  what the model gave, also when it gave none. The normalizer of \<^verbatim>\<open>grader.js\<close> throws
  only what the conversion of \<^verbatim>\<open>score\<close> throws, and otherwise returns \<^verbatim>\<open>score\<close>,
  \<^verbatim>\<open>maxScore\<close> and the four arrays; \<^verbatim>\<open>rationale\<close>, \<^verbatim>\<open>booklistAlignment\<close> and \<^verbatim>\<open>nextDrill\<close>
  are what the model gave.
\<close>

theorem normalizer_result_shape:
  assumes "is_object p"
  shows "(case normalize_server m p of
            Inl e \<Rightarrow> to_number (drill_minutes p) = Inl e
          | Inr r \<Rightarrow>
              is_object r
              \<and> (\<exists>s. opt_get r (str ''score'') = JNum s)
              \<and> opt_get r (str ''maxScore'') = JNum m
              \<and> (\<forall>k \<in> set array_fields. isArray (opt_get r k))
              \<and> is_object (opt_get r (str ''booklistAlignment''))
              \<and> isArray (opt_get (opt_get r (str ''booklistAlignment'')) (str ''topics''))
              \<and> isArray (opt_get (opt_get r (str ''booklistAlignment'')) (str ''refsToReview''))
              \<and> is_object (opt_get r (str ''nextDrill''))
              \<and> (\<exists>s. opt_get (opt_get r (str ''nextDrill'')) (str ''prompt'') = JStr s)
              \<and> (\<exists>q. opt_get (opt_get r (str ''nextDrill'')) (str ''timeboxMinutes'') = JNum (Fin q)
                     \<and> 5 \<le> q \<and> q \<le> 120)
              \<and> opt_get r (str ''rationale'') = opt_get p (str ''rationale''))
       \<and> (case normalize_static m p of
            Inl e \<Rightarrow> to_number (opt_get p (str ''score'')) = Inl e
          | Inr r \<Rightarrow>
              is_object r
              \<and> (\<exists>s. opt_get r (str ''score'') = JNum s)
              \<and> opt_get r (str ''maxScore'') = JNum m
              \<and> (\<forall>k \<in> set array_fields. isArray (opt_get r k))
              \<and> (\<forall>k \<in> {str ''rationale'', str ''booklistAlignment'', str ''nextDrill''}.
                    opt_get r k = opt_get p k))"
proof
  show "case normalize_server m p of
            Inl e \<Rightarrow> to_number (drill_minutes p) = Inl e
          | Inr r \<Rightarrow>
              is_object r
              \<and> (\<exists>s. opt_get r (str ''score'') = JNum s)
              \<and> opt_get r (str ''maxScore'') = JNum m
              \<and> (\<forall>k \<in> set array_fields. isArray (opt_get r k))
              \<and> is_object (opt_get r (str ''booklistAlignment''))
              \<and> isArray (opt_get (opt_get r (str ''booklistAlignment'')) (str ''topics''))
              \<and> isArray (opt_get (opt_get r (str ''booklistAlignment'')) (str ''refsToReview''))
              \<and> is_object (opt_get r (str ''nextDrill''))
              \<and> (\<exists>s. opt_get (opt_get r (str ''nextDrill'')) (str ''prompt'') = JStr s)
              \<and> (\<exists>q. opt_get (opt_get r (str ''nextDrill'')) (str ''timeboxMinutes'') = JNum (Fin q)
                     \<and> 5 \<le> q \<and> q \<le> 120)
              \<and> opt_get r (str ''rationale'') = opt_get p (str ''rationale'')"
  proof (cases "to_number (drill_minutes p)")
    case (Inl e)
    with assms show ?thesis by (simp add: normalize_server_object)
  next
    case (Inr x)
    with assms show ?thesis
      using clamp_minutes_range [of x]
        string_or_empty_string [of "opt_get (drill_source p) (str ''prompt'')"]
      by (simp add: normalize_server_object server_result_scores server_result_array
          server_result_alignment alignment_result_fields server_result_drill
          drill_result_fields server_result_rationale)
  qed
next
  show "case normalize_static m p of
            Inl e \<Rightarrow> to_number (opt_get p (str ''score'')) = Inl e
          | Inr r \<Rightarrow>
              is_object r
              \<and> (\<exists>s. opt_get r (str ''score'') = JNum s)
              \<and> opt_get r (str ''maxScore'') = JNum m
              \<and> (\<forall>k \<in> set array_fields. isArray (opt_get r k))
              \<and> (\<forall>k \<in> {str ''rationale'', str ''booklistAlignment'', str ''nextDrill''}.
                    opt_get r k = opt_get p k)"
    using assms
    by (cases "to_number (opt_get p (str ''score''))")
       (simp_all add: normalize_static_object static_result_scores static_result_array
          static_result_kept)
qed

text \<open>
  An instance, with a \<^verbatim>\<open>timeboxMinutes\<close> that converts to 500.
\<close>

theorem normalizer_result_shape_witness:
  "is_object (JObj [(str ''rationale'', JStr (str ''ok'')),
                    (str ''nextDrill'', JObj [(str ''timeboxMinutes'', JStr (str ''500''))])])
   \<and> bind (normalize_server (Fin 20)
             (JObj [(str ''rationale'', JStr (str ''ok'')),
                    (str ''nextDrill'', JObj [(str ''timeboxMinutes'', JStr (str ''500''))])]))
        (\<lambda>r. Inr (opt_get r (str ''maxScore''), opt_get r (str ''rationale''),
                   isArray (opt_get r (str ''strengths'')),
                   is_object (opt_get r (str ''nextDrill''))))
       = Inr (JNum (Fin 20), JStr (str ''ok''), True, True)"
proof -
  let ?p = "JObj [(str ''rationale'', JStr (str ''ok'')),
                  (str ''nextDrill'', JObj [(str ''timeboxMinutes'', JStr (str ''500''))])]"
  have h: "is_object ?p" by simp
  have d: "to_number (drill_minutes ?p) = Inr (Fin 500)" by code_simp
  have k: "str ''strengths'' \<in> set array_fields" by (simp add: array_fields_def)
  have v: "opt_get ?p (str ''rationale'') = JStr (str ''ok'')" by code_simp
  from normalizer_result_shape [OF h, of "Fin 20"] d k v h show ?thesis
    by (auto simp: bind_def split: sum.splits)
qed

text \<open>
  Claim C3 as stated fails. The parsed value 5 (the reply \<^verbatim>\<open>5\<close>) passes the test
  \<^verbatim>\<open>!parsed\<close> and the normalizer throws a \<^verbatim>\<open>TypeError\<close>, in \<^verbatim>\<open>server.js\<close> at
  \<^verbatim>\<open>parsed.booklistAlignment.topics\<close> and in \<^verbatim>\<open>grader.js\<close> at the first assignment; an
  object whose \<^verbatim>\<open>timeboxMinutes\<close> is an object with a property \<^verbatim>\<open>toString\<close> makes
  \<^verbatim>\<open>Number\<close> throw; and the result for the empty object has no \<^verbatim>\<open>rationale\<close>.
\<close>

theorem normalizer_raises_counterexample:
  "normalize_server (Fin 20) (JNum (Fin 5)) = Inl TypeError
   \<and> normalize_static (Fin 20) (JNum (Fin 5)) = Inl TypeError
   \<and> normalize_server (Fin 20)
       (JObj [(str ''nextDrill'', JObj [(str ''timeboxMinutes'', JObj [(str ''toString'', JNull)])])])
       = Inl TypeError
   \<and> bind (normalize_server (Fin 20) (JObj [])) (\<lambda>r. get r (str ''rationale'')) = Inr JUndefined"
  by code_simp

text \<open>
  Claim C4, as the code has it. For every parsed value that is an object or an array, in
  the result of \<^verbatim>\<open>server.js\<close>: if the model's \<^verbatim>\<open>nextDrill\<close> is absent or not
  object-shaped, \<^verbatim>\<open>nextDrill\<close> is \<^verbatim>\<open>{ prompt: "", timeboxMinutes: 10 }\<close>; otherwise its
  \<^verbatim>\<open>prompt\<close> is the model's if that is a string and the empty string if not, and its
  \<^verbatim>\<open>timeboxMinutes\<close> is the model's converted to a number and clamped to \<open>[5, 120]\<close>, or
  15 when the number is not finite.
\<close>

theorem next_drill_normalized:
  assumes "is_object p"
  shows "case normalize_server m p of
           Inl e \<Rightarrow> to_number (drill_minutes p) = Inl e
         | Inr r \<Rightarrow>
             (if object_shaped (opt_get p (str ''nextDrill'')) then
                opt_get (opt_get r (str ''nextDrill'')) (str ''prompt'')
                  = string_or_empty (opt_get (opt_get p (str ''nextDrill'')) (str ''prompt''))
                \<and> (\<exists>x. to_number (opt_get (opt_get p (str ''nextDrill'')) (str ''timeboxMinutes''))
                          = Inr x
                       \<and> opt_get (opt_get r (str ''nextDrill'')) (str ''timeboxMinutes'')
                          = JNum (clamp_minutes x))
              else
                opt_get r (str ''nextDrill'')
                  = JObj [(str ''prompt'', JStr []), (str ''timeboxMinutes'', JNum (Fin 10))])"
proof (cases "to_number (drill_minutes p)")
  case (Inl e)
  with assms show ?thesis by (simp add: normalize_server_object)
next
  case (Inr x)
  show ?thesis
  proof (cases "object_shaped (opt_get p (str ''nextDrill''))")
    case True
    then have src: "drill_source p = opt_get p (str ''nextDrill'')"
      by (simp add: drill_source_def)
    with Inr have "to_number (opt_get (opt_get p (str ''nextDrill'')) (str ''timeboxMinutes''))
                   = Inr x"
      by (simp add: drill_minutes_def)
    with assms Inr True src show ?thesis
      by (simp add: normalize_server_object server_result_drill drill_result_fields)
  next
    case False
    then have src: "drill_source p = default_drill" by (simp add: drill_source_def)
    with Inr have x: "x = Fin 10"
      by (simp add: drill_minutes_def default_drill_def own_def str_def)
    have "drill_result p x = JObj [(str ''prompt'', JStr []), (str ''timeboxMinutes'', JNum (Fin 10))]"
      unfolding x
      by (simp add: drill_result_def src default_drill_def own_def string_or_empty_def
          clamp_minutes_def Math_min_def Math_max_def str_def)
    with assms Inr False show ?thesis
      by (simp add: normalize_server_object server_result_drill)
  qed
qed

text \<open>
  Two instances: a numeric prompt and the time box \<^verbatim>\<open>"500"\<close> become the empty string and
  120; a \<^verbatim>\<open>nextDrill\<close> that is a string is replaced by the default.
\<close>

theorem next_drill_normalized_witness:
  "is_object (JObj [(str ''nextDrill'', JObj [(str ''prompt'', JNum (Fin 3)),
                                              (str ''timeboxMinutes'', JStr (str ''500''))])])
   \<and> is_object (JObj [(str ''nextDrill'', JStr (str ''later''))])
   \<and> bind (normalize_server (Fin 20)
             (JObj [(str ''nextDrill'', JObj [(str ''prompt'', JNum (Fin 3)),
                                              (str ''timeboxMinutes'', JStr (str ''500''))])]))
        (\<lambda>r. Inr (opt_get (opt_get r (str ''nextDrill'')) (str ''prompt''),
                   opt_get (opt_get r (str ''nextDrill'')) (str ''timeboxMinutes'')))
       = Inr (JStr [], JNum (Fin 120))
   \<and> bind (normalize_server (Fin 20) (JObj [(str ''nextDrill'', JStr (str ''later''))]))
        (\<lambda>r. Inr (opt_get r (str ''nextDrill'')))
       = Inr (JObj [(str ''prompt'', JStr []), (str ''timeboxMinutes'', JNum (Fin 10))])"
proof -
  let ?p = "JObj [(str ''nextDrill'', JObj [(str ''prompt'', JNum (Fin 3)),
                                            (str ''timeboxMinutes'', JStr (str ''500''))])]"
  let ?q = "JObj [(str ''nextDrill'', JStr (str ''later''))]"
  have hp: "is_object ?p" and hq: "is_object ?q" by simp_all
  have dp: "to_number (drill_minutes ?p) = Inr (Fin 500)" by code_simp
  have dq: "to_number (drill_minutes ?q) = Inr (Fin 10)" by code_simp
  have sp: "object_shaped (opt_get ?p (str ''nextDrill''))" by code_simp
  have sq: "\<not> object_shaped (opt_get ?q (str ''nextDrill''))" by code_simp
  have vp: "string_or_empty (opt_get (opt_get ?p (str ''nextDrill'')) (str ''prompt'')) = JStr []"
    "to_number (opt_get (opt_get ?p (str ''nextDrill'')) (str ''timeboxMinutes'')) = Inr (Fin 500)"
    "clamp_minutes (Fin 500) = Fin 120"
    by code_simp+
  have a: "bind (normalize_server (Fin 20) ?p)
        (\<lambda>r. Inr (opt_get (opt_get r (str ''nextDrill'')) (str ''prompt''),
                   opt_get (opt_get r (str ''nextDrill'')) (str ''timeboxMinutes'')))
       = Inr (JStr [], JNum (Fin 120))"
    using next_drill_normalized [OF hp, of "Fin 20"] dp sp vp
    by (auto simp: bind_def split: sum.splits)
  have b: "bind (normalize_server (Fin 20) ?q) (\<lambda>r. Inr (opt_get r (str ''nextDrill'')))
       = Inr (JObj [(str ''prompt'', JStr []), (str ''timeboxMinutes'', JNum (Fin 10))])"
    using next_drill_normalized [OF hq, of "Fin 20"] dq sq
    by (auto simp: bind_def split: sum.splits)
  from a b hp hq show ?thesis by blast
qed

text \<open>
  Claim C4 as stated fails: for the reply of the specification's scenario, which has no
  \<^verbatim>\<open>nextDrill\<close>, the time box of the result is 10, not 15.
\<close>

theorem next_drill_default_counterexample:
  "bind (normalize_server (Fin 20)
          (JObj [(str ''score'', JNum (Fin 25)), (str ''rationale'', JStr (str ''ok''))]))
     (\<lambda>r. get r (str ''nextDrill''))
   = Inr (JObj [(str ''prompt'', JStr []), (str ''timeboxMinutes'', JNum (Fin 10))])"
  by code_simp

subsection \<open>Provider selection and the prompt\<close>


lemma to_string_or_empty_string:
  "to_string (or_else (JStr s) (JStr [])) = Inr s"
  by (simp add: or_else_def)

lemma trim_lower_empty: "trim (toLowerCase []) = []"
  by (simp add: trim_def toLowerCase_def)

lemma provider_names_fixed:
  "trim (toLowerCase (str ''google'')) = str ''google''"
  "trim (toLowerCase (str ''claude'')) = str ''claude''"
  by (simp_all add: trim_def toLowerCase_def lower_cu_def is_ws_def str_def)

text \<open>
  Claim C9. A provider selector that is absent, or a string that after lower-casing and
  trimming is none of \<^verbatim>\<open>anthropic\<close>, \<^verbatim>\<open>gemini\<close>, \<^verbatim>\<open>google\<close>, \<^verbatim>\<open>claude\<close>, is normalized
  to \<^verbatim>\<open>openai\<close> by \<^verbatim>\<open>server.js\<close>, and the orchestrator then calls the OpenAI adapter;
  \<^verbatim>\<open>grader.js\<close>, which compares the selector as given, calls its OpenAI adapter too.
\<close>

theorem unrecognized_provider_routes_to_openai:
  assumes "sel = None \<or> (\<exists>s. sel = Some s \<and> trim (toLowerCase s) \<notin>
             {str ''anthropic'', str ''gemini'', str ''google'', str ''claude''})"
  shows "normalizeProvider (case sel of None \<Rightarrow> JUndefined | Some s \<Rightarrow> JStr s)
           = Inr (str ''openai'')
       \<and> call_provider e fetch (str ''openai'') apiKey model messages
           = callOpenAI e fetch apiKey model messages
       \<and> static_call_provider fetch (case sel of None \<Rightarrow> [] | Some s \<Rightarrow> s) apiKey model messages
           = static_callOpenAI fetch apiKey model messages"
proof (intro conjI)
  have names: "[] \<notin> {str ''anthropic'', str ''gemini'', str ''google'', str ''claude''}"
    by (simp add: str_def)
  show "normalizeProvider (case sel of None \<Rightarrow> JUndefined | Some s \<Rightarrow> JStr s)
          = Inr (str ''openai'')"
  proof (cases sel)
    case None
    then show ?thesis
      using names by (simp add: normalizeProvider_def or_else_def trim_lower_empty)
  next
    case (Some s)
    with assms have "trim (toLowerCase s) \<notin>
        {str ''anthropic'', str ''gemini'', str ''google'', str ''claude''}" by simp
    with Some show ?thesis
      by (simp add: normalizeProvider_def to_string_or_empty_string Let_def)
  qed
  have "str ''openai'' \<noteq> str ''google''" "str ''openai'' \<noteq> str ''claude''"
    by (simp_all add: str_def)
  then show "call_provider e fetch (str ''openai'') apiKey model messages
           = callOpenAI e fetch apiKey model messages"
    by (simp add: call_provider_def Let_def)
  have "(case sel of None \<Rightarrow> [] | Some s \<Rightarrow> s) \<noteq> str ''google''"
       "(case sel of None \<Rightarrow> [] | Some s \<Rightarrow> s) \<noteq> str ''claude''"
    using assms provider_names_fixed names by (auto split: option.splits)
  then show "static_call_provider fetch (case sel of None \<Rightarrow> [] | Some s \<Rightarrow> s) apiKey model messages
           = static_callOpenAI fetch apiKey model messages"
    by (simp add: static_call_provider_def Let_def)
qed

text \<open>
  The selector \<^verbatim>\<open>"mistral"\<close> of the specification's scenario, and the absent selector.
\<close>

theorem unrecognized_provider_routes_to_openai_witness:
  "trim (toLowerCase (str ''mistral'')) \<notin>
     {str ''anthropic'', str ''gemini'', str ''google'', str ''claude''}
   \<and> normalizeProvider (JStr (str ''mistral'')) = Inr (str ''openai'')
   \<and> normalizeProvider JUndefined = Inr (str ''openai'')"
proof -
  have h: "trim (toLowerCase (str ''mistral'')) \<notin>
     {str ''anthropic'', str ''gemini'', str ''google'', str ''claude''}"
    by code_simp
  from unrecognized_provider_routes_to_openai [of "Some (str ''mistral'')"] h
       unrecognized_provider_routes_to_openai [of None]
  show ?thesis by simp
qed

lemma sublist_left: "sublist x y \<Longrightarrow> sublist x (p @ y)"
proof -
  assume "sublist x y"
  then obtain ps ss where "y = ps @ x @ ss" unfolding sublist_def by blast
  then have "p @ y = (p @ ps) @ x @ ss" by simp
  then show ?thesis unfolding sublist_def by blast
qed

lemma sublist_right: "sublist x y \<Longrightarrow> sublist x (y @ s)"
proof -
  assume "sublist x y"
  then obtain ps ss where "y = ps @ x @ ss" unfolding sublist_def by blast
  then have "y @ s = ps @ x @ (ss @ s)" by simp
  then show ?thesis unfolding sublist_def by blast
qed

lemma sublist_via: "sublist a b \<Longrightarrow> sublist b c \<Longrightarrow> sublist a c"
proof -
  assume "sublist a b" and "sublist b c"
  then obtain ps ss qs ts where "b = ps @ a @ ss" and "c = qs @ b @ ts"
    unfolding sublist_def by blast
  then have "c = (qs @ ps) @ a @ (ss @ ts)" by simp
  then show ?thesis unfolding sublist_def by blast
qed

lemma sublist_join_strs: "x \<in> set xs \<Longrightarrow> sublist x (join_strs sep xs)"
proof (induction sep xs rule: join_strs.induct)
  case (1 sep)
  then show ?case by simp
next
  case (2 sep x')
  then show ?case by simp
next
  case (3 sep x' y ys)
  show ?case
  proof (cases "x = x'")
    case True
    have "sublist x' (x' @ sep @ join_strs sep (y # ys))"
      by (rule sublist_right) simp
    with True show ?thesis by simp
  next
    case False
    with 3 have "sublist x (join_strs sep (y # ys))" by simp
    then have "sublist x (sep @ join_strs sep (y # ys))"
      by (rule sublist_left)
    then have "sublist x (x' @ sep @ join_strs sep (y # ys))"
      by (rule sublist_left)
    then show ?thesis by simp
  qed
qed

lemma sublist_in_part:
  assumes "sublist a part" and "part \<in> set parts"
  shows "sublist a (join_strs sep parts)"
  using assms sublist_join_strs sublist_via by blast

lemma header_has_points: "sublist (NumberToString m) (header_part q m)"
proof -
  have "header_part q m
        = (hdr_open @ q_section q @ hdr_bar) @ NumberToString m @ (hdr_close @ q_text q)"
    by (simp add: header_part_def)
  then show ?thesis unfolding sublist_def by blast
qed

text \<open>
  Claim C10. For every question and answer, both prompt builders return exactly two
  messages, the first with the role \<^verbatim>\<open>system\<close> and the second with the role \<^verbatim>\<open>user\<close>,
  and the user message contains the answer text and the point value as the engine prints
  it.
\<close>

theorem prompt_has_two_messages_with_answer_and_points:
  "(let ms = buildGradingMessages q answer m elapsed notes booklist in
      length ms = 2
      \<and> map role ms = [str ''system'', str ''user'']
      \<and> includes_str (content (ms ! 1)) answer
      \<and> includes_str (content (ms ! 1)) (NumberToString m))
   \<and> (let ms = static_buildGradingMessages q answer m elapsed in
      length ms = 2
      \<and> map role ms = [str ''system'', str ''user'']
      \<and> includes_str (content (ms ! 1)) answer
      \<and> includes_str (content (ms ! 1)) (NumberToString m))"
proof -
  have a: "sublist answer (answer_intro @ answer)"
    by (rule sublist_left) simp
  note h = header_has_points [of m q]
  show ?thesis
    unfolding buildGradingMessages_def static_buildGradingMessages_def Let_def includes_str_def
    by (simp add: msg_def sublist_in_part [OF a] sublist_in_part [OF h])
qed


text \<open>
  An instance with a question of 20 points.
\<close>

theorem prompt_has_two_messages_with_answer_and_points_witness:
  "length (buildGradingMessages
      \<lparr>q_id = str ''q1'', q_section = str ''A'', points = Fin 20, q_text = str ''Define validity.'',
       booklistTopics = Some [str ''measurement''], noteHeading = None\<rparr>
      (str ''my answer'') (Fin 20) (JNum (Fin 30)) None None) = 2
   \<and> includes_str (content (buildGradingMessages
      \<lparr>q_id = str ''q1'', q_section = str ''A'', points = Fin 20, q_text = str ''Define validity.'',
       booklistTopics = Some [str ''measurement''], noteHeading = None\<rparr>
      (str ''my answer'') (Fin 20) (JNum (Fin 30)) None None ! 1)) (str ''my answer'')
   \<and> includes_str (content (static_buildGradingMessages
      \<lparr>q_id = str ''q1'', q_section = str ''A'', points = Fin 20, q_text = str ''Define validity.'',
       booklistTopics = Some [str ''measurement''], noteHeading = None\<rparr>
      (str ''my answer'') (Fin 20) (JNum (Fin 30)) ! 1)) (str ''20'')"
proof -
  have n: "NumberToString (Fin 20) = str ''20''" by code_simp
  from prompt_has_two_messages_with_answer_and_points
    [of "\<lparr>q_id = str ''q1'', q_section = str ''A'', points = Fin 20,
          q_text = str ''Define validity.'', booklistTopics = Some [str ''measurement''],
          noteHeading = None\<rparr>" "str ''my answer''" "Fin 20" "JNum (Fin 30)" None None] n
  show ?thesis by (simp add: Let_def)
qed

subsection \<open>Adapters and the orchestrator\<close>


lemma checked_text_blank:
  "(\<forall>c. tx = JStr c \<longrightarrow> trim c = []) \<Longrightarrow> checked_text err tx = Inl err"
  by (cases tx) (simp_all add: checked_text_def)

lemma checked_text_Inr: "checked_text err tx = Inr t \<Longrightarrow> tx = JStr t \<and> trim t \<noteq> []"
  by (cases tx) (auto simp: checked_text_def split: if_splits)

lemma bind_eq_Inr: "bind m f = Inr y \<longleftrightarrow> (\<exists>x. m = Inr x \<and> f x = Inr y)"
  by (cases m) simp_all

lemma api_error_not_Inr: "api_error res name \<noteq> Inr t"
  by (simp add: api_error_def bind_eq_Inr)

lemma openai_reply_nonblank: "openai_reply res = Inr t \<Longrightarrow> trim t \<noteq> []"
  by (auto simp: openai_reply_def api_error_not_Inr dest: checked_text_Inr split: if_splits)

lemma google_reply_nonblank: "google_reply res = Inr t \<Longrightarrow> trim t \<noteq> []"
  by (auto simp: google_reply_def api_error_not_Inr bind_eq_Inr dest: checked_text_Inr
      split: if_splits)

lemma claude_reply_nonblank: "claude_reply res = Inr t \<Longrightarrow> trim t \<noteq> []"
  by (auto simp: claude_reply_def api_error_not_Inr bind_eq_Inr dest: checked_text_Inr
      split: if_splits)

lemma callOpenAI_nonblank: "callOpenAI e fetch k m ms = Inr t \<Longrightarrow> trim t \<noteq> []"
  by (auto simp: callOpenAI_def bind_eq_Inr err_missing_openai_def err_format_openai_def
      dest: openai_reply_nonblank split: option.splits if_splits)

lemma callGoogle_nonblank: "callGoogle e fetch k m sy us = Inr t \<Longrightarrow> trim t \<noteq> []"
  by (auto simp: callGoogle_def bind_eq_Inr err_missing_google_def URIError_def
      dest: google_reply_nonblank split: option.splits if_splits)

lemma callClaude_nonblank: "callClaude e fetch k m sy us = Inr t \<Longrightarrow> trim t \<noteq> []"
  by (auto simp: callClaude_def bind_eq_Inr err_missing_anthropic_def err_format_anthropic_def
      dest: claude_reply_nonblank split: option.splits if_splits)

lemma empty_reply_distinct:
  "err_empty_openai \<notin> {err_missing_openai, err_format_openai}"
  "err_empty_google \<notin> {err_missing_google, err_missing_google_model, err_google_model_chars, URIError}"
  "err_empty_anthropic \<notin> {err_missing_anthropic, err_format_anthropic}"
  by (simp_all add: err_empty_openai_def err_missing_openai_def err_format_openai_def
      err_empty_google_def err_missing_google_def err_missing_google_model_def
      err_google_model_chars_def URIError_def err_empty_anthropic_def
      err_missing_anthropic_def err_format_anthropic_def str_def)

text \<open>
  Claim C8, as the code has it. On a response that is ok, each adapter of \<^verbatim>\<open>server.js\<close>
  throws its own empty-content error when the text it extracts is empty, only white
  space or no string; the error differs from the adapter's credential and model errors,
  and no adapter of \<^verbatim>\<open>server.js\<close> ever returns an empty or white-space text. The adapters
  of \<^verbatim>\<open>grader.js\<close> have no such check: they return the text they find, and the empty
  string when there is none.
\<close>

theorem server_adapters_reject_blank_text:
  assumes "ok res"
  shows "((\<forall>c. openai_content (data res) = JStr c \<longrightarrow> trim c = [])
            \<longrightarrow> openai_reply res = Inl err_empty_openai)
       \<and> ((\<exists>v. joined_text True (google_parts (data res)) JNull = Inr v
                 \<and> (\<forall>c. v = JStr c \<longrightarrow> trim c = []))
            \<longrightarrow> google_reply res = Inl err_empty_google)
       \<and> ((\<exists>v. joined_text True (claude_parts (data res)) JNull = Inr v
                 \<and> (\<forall>c. v = JStr c \<longrightarrow> trim c = []))
            \<longrightarrow> claude_reply res = Inl err_empty_anthropic)
       \<and> (\<forall>t. callOpenAI e fetch k m ms = Inr t \<longrightarrow> trim t \<noteq> [])
       \<and> (\<forall>t. callGoogle e fetch k m sy us = Inr t \<longrightarrow> trim t \<noteq> [])
       \<and> (\<forall>t. callClaude e fetch k m sy us = Inr t \<longrightarrow> trim t \<noteq> [])
       \<and> err_empty_openai \<notin> {err_missing_openai, err_format_openai}
       \<and> err_empty_google \<notin>
            {err_missing_google, err_missing_google_model, err_google_model_chars, URIError}
       \<and> err_empty_anthropic \<notin> {err_missing_anthropic, err_format_anthropic}
       \<and> static_openai_reply res = Inr (or_else (openai_content (data res)) (JStr []))
       \<and> static_google_reply res = joined_text False (google_parts (data res)) (JStr [])
       \<and> static_claude_reply res = joined_text False (claude_parts (data res)) (JStr [])"
  using assms empty_reply_distinct
  by (auto simp: openai_reply_def google_reply_def claude_reply_def checked_text_blank
      static_openai_reply_def static_google_reply_def static_claude_reply_def
      dest: callOpenAI_nonblank callGoogle_nonblank callClaude_nonblank)


text \<open>
  An instance: a chat completion whose content is two spaces.
\<close>

theorem server_adapters_reject_blank_text_witness:
  "ok \<lparr>ok = True, status = 200,
        data = JObj [(str ''choices'',
                 JArr [JObj [(str ''message'', JObj [(str ''content'', JStr (str ''  ''))])]] [])]\<rparr>
   \<and> openai_reply \<lparr>ok = True, status = 200,
        data = JObj [(str ''choices'',
                 JArr [JObj [(str ''message'', JObj [(str ''content'', JStr (str ''  ''))])]] [])]\<rparr>
       = Inl err_empty_openai"
proof -
  let ?res = "\<lparr>ok = True, status = 200,
        data = JObj [(str ''choices'',
                 JArr [JObj [(str ''message'', JObj [(str ''content'', JStr (str ''  ''))])]] [])]\<rparr>"
  have h: "ok ?res" by simp
  have c: "openai_content (data ?res) = JStr (str ''  '')" by code_simp
  have t: "trim (str ''  '') = []" by code_simp
  from server_adapters_reject_blank_text [OF h] c t h show ?thesis by simp
qed

text \<open>
  Claim C8 as stated fails for \<^verbatim>\<open>grader.js\<close>: its OpenAI adapter returns the empty
  content and the content of two spaces as they are, and its Claude adapter returns the
  empty string for an empty list of parts.
\<close>

theorem static_adapter_returns_blank_counterexample:
  "static_callOpenAI
     (\<lambda>r. Inr \<lparr>ok = True, status = 200,
          data = JObj [(str ''choices'',
                   JArr [JObj [(str ''message'', JObj [(str ''content'', JStr [])])]] [])]\<rparr>)
     (str ''sk-test'') [] [] = Inr (JStr [])
   \<and> static_callOpenAI
     (\<lambda>r. Inr \<lparr>ok = True, status = 200,
          data = JObj [(str ''choices'',
                   JArr [JObj [(str ''message'', JObj [(str ''content'', JStr (str ''  ''))])]] [])]\<rparr>)
     (str ''sk-test'') [] [] = Inr (JStr (str ''  ''))
   \<and> static_callClaude
     (\<lambda>r. Inr \<lparr>ok = True, status = 200, data = JObj [(str ''content'', JArr [] [])]\<rparr>)
     (str ''sk-test'') [] [] [] = Inr (JStr [])"
  by code_simp

lemma falsy_values:
  "v \<in> {JNull, JBool False, JNum (Fin 0), JStr []} \<Longrightarrow> \<not> truthy v"
  by auto


lemma fallback_static_fields:
  "fallback_static m rawv = JObj [(str ''result'', r)] \<Longrightarrow>
     opt_get r (str ''score'') = JNum (Fin 0)
     \<and> opt_get r (str ''maxScore'') = JNum m
     \<and> opt_get r (str ''rationale'') = JStr rationale_unparsable
     \<and> opt_get r (str ''raw'') = rawv
     \<and> opt_get r (str ''strengths'') = JUndefined"
  by (auto simp: fallback_static_def own_def str_def)










lemma isArray_server_result [simp]: "isArray (server_result m p x) = isArray p"
  by (simp add: server_result_def with_arrays_def)

lemma isArray_is_object: "isArray v \<Longrightarrow> is_object v"
  by (cases v) simp_all

lemma isArray_truthy: "isArray v \<Longrightarrow> truthy v"
  by (cases v) simp_all

lemma not_isArray_fallback_server [simp]: "\<not> isArray (fallback_server m)"
  by (simp add: fallback_server_def)

text \<open>
  Claim C7, as the code has it. The test of the orchestrator is \<^verbatim>\<open>!parsed\<close>: a reply whose
  extracted value is \<^verbatim>\<open>null\<close>, \<^verbatim>\<open>false\<close>, \<^verbatim>\<open>0\<close> or the empty string is answered with the
  fallback result. A reply whose extracted value is an array is not: the array is
  normalized like an object, and the answer is never the fallback result.
\<close>

theorem falsy_reply_gives_fallback:
  "(safeJsonParse (JStr raw) \<in> {JNull, JBool False, JNum (Fin 0), JStr []} \<longrightarrow>
      grade_reply m raw = Inr (reply (fallback_server m) raw)
      \<and> static_grade_reply m (JStr raw) = Inr (fallback_static m (JStr raw)))
   \<and> (isArray (safeJsonParse (JStr raw)) \<longrightarrow>
      grade_reply m raw
        = bind (to_number (drill_minutes (safeJsonParse (JStr raw))))
            (\<lambda>x. Inr (reply (server_result m (safeJsonParse (JStr raw)) x) raw))
      \<and> grade_reply m raw \<noteq> Inr (reply (fallback_server m) raw)
      \<and> static_grade_reply m (JStr raw) \<noteq> Inr (fallback_static m (JStr raw)))"
proof (intro conjI impI)
  assume f: "safeJsonParse (JStr raw) \<in> {JNull, JBool False, JNum (Fin 0), JStr []}"
  then have "\<not> truthy (safeJsonParse (JStr raw))" by (rule falsy_values)
  then show "grade_reply m raw = Inr (reply (fallback_server m) raw)"
    and "static_grade_reply m (JStr raw) = Inr (fallback_static m (JStr raw))"
    by (simp_all add: grade_reply_def static_grade_reply_def)
next
  let ?v = "safeJsonParse (JStr raw)"
  assume a: "isArray ?v"
  then have o: "is_object ?v" and t: "truthy ?v"
    by (simp_all add: isArray_is_object isArray_truthy)
  show g: "grade_reply m raw
        = bind (to_number (drill_minutes ?v)) (\<lambda>x. Inr (reply (server_result m ?v x) raw))"
    using t by (cases "to_number (drill_minutes ?v)")
      (simp_all add: grade_reply_def normalize_server_object [OF o])
  show "grade_reply m raw \<noteq> Inr (reply (fallback_server m) raw)"
  proof
    assume "grade_reply m raw = Inr (reply (fallback_server m) raw)"
    with g obtain x where "server_result m ?v x = fallback_server m"
      by (cases "to_number (drill_minutes ?v)") (auto simp: reply_def)
    then have "isArray (server_result m ?v x) = isArray (fallback_server m)" by simp
    with a show False by simp
  qed
  show "static_grade_reply m (JStr raw) \<noteq> Inr (fallback_static m (JStr raw))"
    using t
    by (cases "normalize_static m ?v")
       (simp_all add: static_grade_reply_def fallback_static_def)
qed

text \<open>
  Two instances: the replies \<^verbatim>\<open>false\<close> and \<^verbatim>\<open>[]\<close>.
\<close>

theorem falsy_reply_gives_fallback_witness:
  "safeJsonParse (JStr (str ''false'')) \<in> {JNull, JBool False, JNum (Fin 0), JStr []}
   \<and> grade_reply (Fin 20) (str ''false'') = Inr (reply (fallback_server (Fin 20)) (str ''false''))
   \<and> isArray (safeJsonParse (JStr (str ''[]'')))
   \<and> grade_reply (Fin 20) (str ''[]'') \<noteq> Inr (reply (fallback_server (Fin 20)) (str ''[]''))"
proof -
  have h: "safeJsonParse (JStr (str ''false'')) = JBool False" by code_simp
  have a: "safeJsonParse (JStr (str ''[]'')) = JArr [] []" by code_simp
  have arr: "isArray (safeJsonParse (JStr (str ''[]'')))" by (simp add: a)
  have 1: "grade_reply (Fin 20) (str ''false'')
           = Inr (reply (fallback_server (Fin 20)) (str ''false''))"
    using falsy_reply_gives_fallback [of "str ''false''" "Fin 20"] h by simp
  have 2: "grade_reply (Fin 20) (str ''[]'')
           \<noteq> Inr (reply (fallback_server (Fin 20)) (str ''[]''))"
    using falsy_reply_gives_fallback [of "str ''[]''" "Fin 20"] arr by blast
  from 1 2 arr h show ?thesis by simp
qed

text \<open>
  Claim C7 as stated fails: for the reply \<^verbatim>\<open>[]\<close> \<^verbatim>\<open>handleGrade\<close> answers the array with
  the normalized properties assigned to it, and for the reply \<^verbatim>\<open>5\<close> it throws.
\<close>

theorem top_level_array_counterexample:
  "safeJsonParse (JStr (str ''[]'')) = JArr [] []
   \<and> grade_reply (Fin 20) (str ''[]'')
      = Inr (SendJson 200
          (JObj [(str ''result'',
                  JArr []
                    [(str ''maxScore'', JNum (Fin 20)),
                     (str ''score'', JNum (Fin 0)),
                     (str ''strengths'', JArr [] []),
                     (str ''missingPoints'', JArr [] []),
                     (str ''improvements'', JArr [] []),
                     (str ''suggestedOutline'', JArr [] []),
                     (str ''booklistAlignment'',
                        JObj [(str ''topics'', JArr [] []), (str ''refsToReview'', JArr [] [])]),
                     (str ''nextDrill'',
                        JObj [(str ''prompt'', JStr []), (str ''timeboxMinutes'', JNum (Fin 10))])]),
                 (str ''raw'', JStr (str ''[]''))]))
   \<and> safeJsonParse (JStr (str ''5'')) = JNum (Fin 5)
   \<and> grade_reply (Fin 20) (str ''5'') = Inl TypeError"
  by code_simp

subsection \<open>The extractor\<close>

























end
